theory Spec2Isabelle
  imports Complex_Main "HOL-Library.Multiset"
begin

section \<open>The body catalogue of SolarSystem.cpp\<close>

text \<open>
  The catalogue is shared, mutable state: \<open>systemPlanets\<close> is a list of shared pointers
  (\<open>PlanetP\<close>), a body's \<open>parent\<close> and \<open>satellites\<close> are further pointers to the same
  objects, and \<open>sun\<close>, \<open>earth\<close>, \<open>moon\<close> are aliases.  Pointers are addresses
  (\<open>nat\<close>), a null pointer is \<open>None\<close>, and the objects live in a store \<open>obj\<close>.  A shared
  pointer keeps its object alive, so reading through a non-null pointer always succeeds; the
  store is therefore total.
\<close>

datatype body_class = PlanetClass | MinorPlanetClass | CometClass

datatype posfunc = EllipticalOrbitPosFunc | CometOrbitPosFunc | SpecialPosFunc string

record planet =
  englishName :: string
  bodyClass :: body_class
  pType :: nat
  typeStr :: string
  parent :: "nat option"
  satellites :: "nat list"
  orbitPtr :: "nat option"
  coordFunc :: posfunc

record solar_system =
  obj :: "nat \<Rightarrow> planet"
  systemPlanets :: "nat list"
  orbits :: "nat list"
  sun :: "nat option"
  earth :: "nat option"
  moon :: "nat option"
  minorBodies :: "string list"
  shadowPlanetCount :: nat
  nextAddr :: nat

text \<open>
  Members of class \<open>Planet\<close> that SolarSystem.cpp uses but that are declared in Planet.hpp,
  which is not among the sources: the enum constant \<open>Planet::isAsteroid\<close>, the constructor's
  translation of the \<open>type\<close> string into \<open>pType\<close>, and the getters
  \<open>getPlanetTypeString\<close> and \<open>getNameI18n\<close>.  They are parameters of the model.
\<close>

record planet_class =
  isAsteroid :: nat
  pTypeOfString :: "string \<Rightarrow> nat"
  getPlanetTypeString :: "planet \<Rightarrow> string"
  getNameI18n :: "planet \<Rightarrow> string"

text \<open>
  How a call can end.  \<open>Exits\<close> is \<open>exit(-1)\<close>; \<open>AssertFails\<close> is a failing \<open>Q_ASSERT\<close>,
  which stops the process in a debug build and is compiled away in a release build;
  \<open>NullDeref\<close> is a member access through a null \<open>PlanetP\<close>; \<open>Diverges\<close> is a loop that
  never ends.
\<close>

datatype 'a outcome = Returns 'a | Exits | AssertFails | NullDeref | Diverges

subsection \<open>Queries\<close>

definition getEnglishName :: "solar_system \<Rightarrow> nat \<Rightarrow> string" where
  "getEnglishName st a = englishName (obj st a)"

definition searchByEnglishName :: "solar_system \<Rightarrow> string \<Rightarrow> nat option" where
  "searchByEnglishName st planetEnglishName =
     find (\<lambda>p. getEnglishName st p = planetEnglishName) (systemPlanets st)"

definition listAllObjects :: "planet_class \<Rightarrow> bool \<Rightarrow> solar_system \<Rightarrow> string list" where
  "listAllObjects pc inEnglish st =
     (if inEnglish then map (\<lambda>p. getEnglishName st p) (systemPlanets st)
      else map (\<lambda>p. getNameI18n pc (obj st p)) (systemPlanets st))"





subsection \<open>Removal\<close>

text \<open>
  \<open>removePlanet\<close>: the candidate is the first body with the name.  For a major body
  (\<open>pType < Planet::isAsteroid\<close>) the code warns and runs \<open>Q_ASSERT(0)\<close>; \<open>debugBuild\<close>
  says whether the assertion is compiled in.  Then the orbit pointer, when not null, and
  the body are taken out of their lists with \<open>removeOne\<close>.
\<close>

definition removePlanet ::
  "planet_class \<Rightarrow> bool \<Rightarrow> string \<Rightarrow> solar_system \<Rightarrow> (bool \<times> solar_system) outcome" where
  "removePlanet pc debugBuild name st =
     (case searchByEnglishName st name of
        None \<Rightarrow> Returns (False, st)
      | Some candidate \<Rightarrow>
          if pType (obj st candidate) < isAsteroid pc \<and> debugBuild then AssertFails
          else
            let st1 = (case orbitPtr (obj st candidate) of
                         None \<Rightarrow> st
                       | Some orbPtr \<Rightarrow> st\<lparr>orbits := remove1 orbPtr (orbits st)\<rparr>)
            in Returns (True, st1\<lparr>systemPlanets := remove1 candidate (systemPlanets st1)\<rparr>))"


section \<open>Loading a catalogue file\<close>

text \<open>
  The \<open>QSettings\<close> object read from one INI file.  \<open>status_ok\<close> is
  \<open>pd.status() == QSettings::NoError\<close>, \<open>childGroups\<close> the section names.  The text of
  a key \<open>section/field\<close> is \<open>strValue\<close>; for the numeric fields \<open>numValue\<close> is the
  number that \<open>toDouble\<close> reads from that text (a finite double is a real number, and the
  loader only compares these numbers with constants).
\<close>

record settings =
  status_ok :: bool
  childGroups :: "string list"
  strValue :: "string \<rightharpoonup> string"
  numValue :: "string \<rightharpoonup> real"

definition pd_string :: "settings \<Rightarrow> string \<Rightarrow> string \<Rightarrow> string" where
  "pd_string pd key dflt = (case strValue pd key of None \<Rightarrow> dflt | Some v \<Rightarrow> v)"

definition pd_double :: "settings \<Rightarrow> string \<Rightarrow> real \<Rightarrow> real" where
  "pd_double pd key dflt = (case numValue pd key of None \<Rightarrow> dflt | Some v \<Rightarrow> v)"

text \<open>The double written \<open>1e100\<close> in the source, exactly.\<close>

definition double_1e100 :: real where
  "double_1e100 =
     10000000000000000159028911097599180468360808563945281389781327557747838772170381060813469985856815104"

definition nameOf :: "settings \<Rightarrow> string \<Rightarrow> string" where
  "nameOf pd secname = pd_string pd (secname @ ''/name'') []"

definition parentOf :: "settings \<Rightarrow> string \<Rightarrow> string" where
  "parentOf pd secname = pd_string pd (secname @ ''/parent'') ''Sun''"

definition coordFuncOf :: "settings \<Rightarrow> string \<Rightarrow> string" where
  "coordFuncOf pd secname = pd_string pd (secname @ ''/coord_func'') []"

subsection \<open>Stage 1: the two name maps\<close>

fun stage1 ::
  "settings \<Rightarrow> string list \<Rightarrow> (string \<rightharpoonup> string) \<times> (string \<rightharpoonup> string)
     \<Rightarrow> (string \<rightharpoonup> string) \<times> (string \<rightharpoonup> string)" where
  "stage1 pd [] (secNameMap, parentMap) = (secNameMap, parentMap)"
| "stage1 pd (secname # rest) (secNameMap, parentMap) =
     (let name = nameOf pd secname;
          strParent = parentOf pd secname
      in stage1 pd rest
           (secNameMap(name \<mapsto> secname),
            if strParent \<noteq> ''none'' \<and> strParent \<noteq> [] \<and> name \<noteq> []
            then parentMap(name \<mapsto> strParent) else parentMap))"

subsection \<open>Stage 2: the order of the sections\<close>

text \<open>
  The walk up the declared parents,
  \<^verbatim>\<open>while(parentMap.contains(p) && parentMap[p]!="none") { level++; p = parentMap[p]; }\<close>.
  Nothing bounds it: on a cycle of declared parents it never returns, which is the value
  \<open>None\<close>.  A walk that returns visits pairwise different keys of \<open>parentMap\<close>, so
  \<open>level\<close> stays below the number of sections and the C++ \<open>int\<close> cannot overflow.
\<close>

partial_function (option) followParents ::
  "(string \<rightharpoonup> string) \<Rightarrow> string \<Rightarrow> nat \<Rightarrow> nat option" where
  "followParents parentMap p level =
     (case parentMap p of
        None \<Rightarrow> Some level
      | Some q \<Rightarrow> if q \<noteq> ''none'' then followParents parentMap q (Suc level) else Some level)"

declare followParents.simps [code]

text \<open>
  \<open>QMultiMap<int, QString>\<close> as the list of its items in iteration order: ascending in
  the key, and \<open>insert\<close> puts a new item in front of the items that already have its key
  (Qt lists the values of one key from the most recently inserted to the least recently
  inserted).
\<close>

fun multimap_insert :: "nat \<Rightarrow> string \<Rightarrow> (nat \<times> string) list \<Rightarrow> (nat \<times> string) list" where
  "multimap_insert k v [] = [(k, v)]"
| "multimap_insert k v ((k', v') # rest) =
     (if k' < k then (k', v') # multimap_insert k v rest else (k, v) # (k', v') # rest)"

text \<open>\<open>secNameMap[englishName]\<close>: \<open>operator[]\<close> gives the empty string for a missing key.\<close>

definition secNameMap_at :: "(string \<rightharpoonup> string) \<Rightarrow> string \<Rightarrow> string" where
  "secNameMap_at secNameMap name =
     (case secNameMap name of None \<Rightarrow> [] | Some s \<Rightarrow> s)"

fun stage2a ::
  "settings \<Rightarrow> (string \<rightharpoonup> string) \<Rightarrow> (string \<rightharpoonup> string) \<Rightarrow> string list
     \<Rightarrow> (nat \<times> string) list \<Rightarrow> (nat \<times> string) list option" where
  "stage2a pd secNameMap parentMap [] depLevelMap = Some depLevelMap"
| "stage2a pd secNameMap parentMap (secname # rest) depLevelMap =
     (case followParents parentMap (nameOf pd secname) 0 of
        None \<Rightarrow> None
      | Some level \<Rightarrow>
          stage2a pd secNameMap parentMap rest
            (multimap_insert level (secNameMap_at secNameMap (nameOf pd secname)) depLevelMap))"

definition depLevelMap_of :: "settings \<Rightarrow> (nat \<times> string) list option" where
  "depLevelMap_of pd =
     (case stage1 pd (childGroups pd) (Map.empty, Map.empty) of
        (secNameMap, parentMap) \<Rightarrow> stage2a pd secNameMap parentMap (childGroups pd) [])"

definition parentMap_of :: "settings \<Rightarrow> (string \<rightharpoonup> string)" where
  "parentMap_of pd = snd (stage1 pd (childGroups pd) (Map.empty, Map.empty))"

definition orderedSections :: "settings \<Rightarrow> string list option" where
  "orderedSections pd = map_option (map snd) (depLevelMap_of pd)"


subsection \<open>Stage 3: one section\<close>

text \<open>
  \<open>QString::simplified\<close>: white space at both ends goes, every inner run of white space
  becomes one blank.  \<open>isSpace\<close> is \<open>QChar::isSpace\<close> on Latin-1.
\<close>

definition isSpace :: "char \<Rightarrow> bool" where
  "isSpace c = (let n = of_char c :: nat in n = 32 \<or> (9 \<le> n \<and> n \<le> 13) \<or> n = 133 \<or> n = 160)"

fun splitSpaces :: "string \<Rightarrow> string list" where
  "splitSpaces [] = [[]]"
| "splitSpaces (c # cs) =
     (if isSpace c then [] # splitSpaces cs
      else (case splitSpaces cs of [] \<Rightarrow> [[c]] | w # ws \<Rightarrow> (c # w) # ws))"

fun joinBlank :: "string list \<Rightarrow> string" where
  "joinBlank [] = []"
| "joinBlank [w] = w"
| "joinBlank (w # ws) = w @ CHR '' '' # joinBlank ws"

definition simplified :: "string \<Rightarrow> string" where
  "simplified s = joinBlank (filter (\<lambda>w. w \<noteq> []) (splitSpaces s))"

text \<open>\<open>QString::contains\<close>, case sensitive.\<close>

fun contains :: "string \<Rightarrow> string \<Rightarrow> bool" where
  "contains [] sub = (sub = [])"
| "contains (c # cs) sub = (take (length sub) (c # cs) = sub \<or> contains cs sub)"

datatype skip_reason = NoParent | NoOrbitSize | NoPericenterTime

definition special_coord_funcs :: "string list" where
  "special_coord_funcs =
     [''sun_special'', ''mercury_special'', ''venus_special'', ''earth_special'',
      ''lunar_special'', ''mars_special'', ''phobos_special'', ''deimos_special'',
      ''jupiter_special'', ''europa_special'', ''calisto_special'', ''io_special'',
      ''ganymede_special'', ''saturn_special'', ''mimas_special'', ''enceladus_special'',
      ''tethys_special'', ''dione_special'', ''rhea_special'', ''titan_special'',
      ''iapetus_special'', ''hyperion_special'', ''uranus_special'', ''miranda_special'',
      ''ariel_special'', ''umbriel_special'', ''titania_special'', ''oberon_special'',
      ''neptune_special'', ''pluto_special'']"

definition recognized_coord_funcs :: "string list" where
  "recognized_coord_funcs = ''ell_orbit'' # ''comet_orbit'' # special_coord_funcs"

text \<open>\<open>new EllipticalOrbit(...)\<close> or \<open>new CometOrbit(...)\<close>, then \<open>orbits.push_back(orb)\<close>.\<close>

definition newOrbit :: "solar_system \<Rightarrow> nat \<times> solar_system" where
  "newOrbit st =
     (nextAddr st, st\<lparr>orbits := orbits st @ [nextAddr st], nextAddr := Suc (nextAddr st)\<rparr>)"

text \<open>
  The \<open>ell_orbit\<close> branch, as far as it decides how the record ends.  The record is skipped
  when neither \<open>orbit_PericenterDistance\<close> nor \<open>orbit_SemiMajorAxis\<close> is given; with only the
  semi-major axis the code asserts \<open>eccentricity != 1.0\<close>; further down it calls
  \<open>parent->getParent()\<close>, whatever \<open>parent\<close> is.  The orbital elements themselves are
  double arithmetic and are left out.
\<close>

definition ell_orbit ::
  "bool \<Rightarrow> settings \<Rightarrow> string \<Rightarrow> nat option \<Rightarrow> solar_system
     \<Rightarrow> (skip_reason + nat \<times> solar_system) outcome" where
  "ell_orbit debugBuild pd secname parentPtr st =
     (let eccentricity = pd_double pd (secname @ ''/orbit_Eccentricity'') 0;
          pericenterDistance =
            pd_double pd (secname @ ''/orbit_PericenterDistance'') (- double_1e100);
          semi_major_axis = pd_double pd (secname @ ''/orbit_SemiMajorAxis'') (- double_1e100)
      in if pericenterDistance \<le> 0 \<and> semi_major_axis \<le> - double_1e100
         then Returns (Inl NoOrbitSize)
         else if pericenterDistance \<le> 0 \<and> debugBuild \<and> eccentricity = 1 then AssertFails
         else (case parentPtr of
                 None \<Rightarrow> NullDeref
               | Some q \<Rightarrow> Returns (Inr (newOrbit st))))"

text \<open>
  The \<open>comet_orbit\<close> branch.  Without \<open>orbit_MeanMotion\<close> and \<open>orbit_Period\<close> it calls
  \<open>parent->getParent()\<close> already before the second skip, the one for a missing time of
  pericenter.
\<close>

definition comet_orbit ::
  "bool \<Rightarrow> settings \<Rightarrow> string \<Rightarrow> nat option \<Rightarrow> solar_system
     \<Rightarrow> (skip_reason + nat \<times> solar_system) outcome" where
  "comet_orbit debugBuild pd secname parentPtr st =
     (let eccentricity = pd_double pd (secname @ ''/orbit_Eccentricity'') 0;
          pericenterDistance =
            pd_double pd (secname @ ''/orbit_PericenterDistance'') (- double_1e100);
          semi_major_axis = pd_double pd (secname @ ''/orbit_SemiMajorAxis'') (- double_1e100);
          meanMotion = pd_double pd (secname @ ''/orbit_MeanMotion'') (- double_1e100);
          period = pd_double pd (secname @ ''/orbit_Period'') (- double_1e100);
          time_at_pericenter =
            pd_double pd (secname @ ''/orbit_TimeAtPericenter'') (- double_1e100);
          epoch = pd_double pd (secname @ ''/orbit_Epoch'') (- double_1e100);
          mean_anomaly = pd_double pd (secname @ ''/orbit_MeanAnomaly'') (- double_1e100)
      in if pericenterDistance \<le> 0 \<and> semi_major_axis \<le> - double_1e100
         then Returns (Inl NoOrbitSize)
         else if pericenterDistance \<le> 0 \<and> debugBuild \<and> eccentricity = 1 then AssertFails
         else if meanMotion \<le> - double_1e100 \<and> period \<le> - double_1e100 \<and> parentPtr = None
         then NullDeref
         else if time_at_pericenter \<le> - double_1e100
                 \<and> (epoch \<le> - double_1e100 \<or> mean_anomaly \<le> - double_1e100)
         then Returns (Inl NoPericenterTime)
         else (case parentPtr of
                 None \<Rightarrow> NullDeref
               | Some q \<Rightarrow> Returns (Inr (newOrbit st))))"

text \<open>
  The chain of comparisons on \<open>coord_func\<close>.  The result is \<open>posfunc\<close> (\<open>None\<close> when no
  comparison matched and it is still \<open>Q_NULLPTR\<close>), \<open>orbitPtr\<close> and the state.
\<close>

definition resolveCoordFunc ::
  "bool \<Rightarrow> settings \<Rightarrow> string \<Rightarrow> nat option \<Rightarrow> solar_system
     \<Rightarrow> (skip_reason + posfunc option \<times> nat option \<times> solar_system) outcome" where
  "resolveCoordFunc debugBuild pd secname parentPtr st =
     (let funcName = coordFuncOf pd secname in
      if funcName = ''ell_orbit''
      then map_outcome (map_sum id (\<lambda>(orb, st'). (Some EllipticalOrbitPosFunc, Some orb, st')))
             (ell_orbit debugBuild pd secname parentPtr st)
      else if funcName = ''comet_orbit''
      then map_outcome (map_sum id (\<lambda>(orb, st'). (Some CometOrbitPosFunc, Some orb, st')))
             (comet_orbit debugBuild pd secname parentPtr st)
      else if funcName \<in> set special_coord_funcs
      then Returns (Inr (Some (SpecialPosFunc funcName), None, st))
      else Returns (Inr (None, None, st)))"

definition minor_body_types :: "string list" where
  "minor_body_types =
     [''asteroid'', ''dwarf planet'', ''cubewano'', ''plutino'', ''scattered disc object'',
      ''Oort cloud object'']"

text \<open>
  Construction of the body: the subclass by the \<open>type\<close> field, the link into the parent's
  \<open>satellites\<close>, the three aliases by section name, and \<open>systemPlanets.push_back(p)\<close>.
  Physical and rotation parameters, rings and textures are left out.
\<close>

definition createBody ::
  "planet_class \<Rightarrow> settings \<Rightarrow> string \<Rightarrow> string \<Rightarrow> nat option \<Rightarrow> posfunc \<Rightarrow> nat option
     \<Rightarrow> solar_system \<Rightarrow> solar_system" where
  "createBody pc pd secname name parentPtr pf orbPtr st =
     (let ptype = pd_string pd (secname @ ''/type'') [];
          cls = (if ptype \<in> set minor_body_types \<and> \<not> contains name ''Pluto''
                 then MinorPlanetClass
                 else if ptype = ''comet'' then CometClass else PlanetClass);
          st1 = (if cls = PlanetClass then st else st\<lparr>minorBodies := minorBodies st @ [name]\<rparr>);
          p = nextAddr st1;
          body = \<lparr>englishName = name, bodyClass = cls, pType = pTypeOfString pc ptype,
                  typeStr = ptype, parent = parentPtr, satellites = [], orbitPtr = orbPtr,
                  coordFunc = pf\<rparr>;
          st2 = st1\<lparr>obj := (obj st1)(p := body), nextAddr := Suc p\<rparr>;
          st3 = (case parentPtr of
                   None \<Rightarrow> st2
                 | Some q \<Rightarrow>
                     st2\<lparr>obj := (obj st2)
                            (q := (obj st2 q)\<lparr>satellites := satellites (obj st2 q) @ [p]\<rparr>)\<rparr>);
          st4 = st3\<lparr>earth := (if secname = ''earth'' then Some p else earth st3),
                    sun := (if secname = ''sun'' then Some p else sun st3),
                    moon := (if secname = ''moon'' then Some p else moon st3)\<rparr>
      in st4\<lparr>systemPlanets := systemPlanets st4 @ [p]\<rparr>)"

text \<open>
  One pass of the stage-3 loop body.  \<open>Returns (Inl r)\<close> is a \<open>continue\<close> after the
  diagnostic \<open>r\<close>, with the catalogue as it was; \<open>Returns (Inr st')\<close> is a body added.
\<close>

definition processSection ::
  "planet_class \<Rightarrow> bool \<Rightarrow> settings \<Rightarrow> string \<Rightarrow> solar_system
     \<Rightarrow> (skip_reason + solar_system) outcome" where
  "processSection pc debugBuild pd secname st =
     (let name = simplified (nameOf pd secname);
          strParent = parentOf pd secname;
          parentPtr = (if strParent \<noteq> ''none''
                       then find (\<lambda>p. getEnglishName st p = strParent) (systemPlanets st)
                       else None)
      in if strParent \<noteq> ''none'' \<and> parentPtr = None then Returns (Inl NoParent)
         else (case resolveCoordFunc debugBuild pd secname parentPtr st of
                 Returns (Inl r) \<Rightarrow> Returns (Inl r)
               | Returns (Inr (None, orbPtr, st1)) \<Rightarrow> Exits
               | Returns (Inr (Some pf, orbPtr, st1)) \<Rightarrow>
                   Returns (Inr (createBody pc pd secname name parentPtr pf orbPtr st1))
               | Exits \<Rightarrow> Exits
               | AssertFails \<Rightarrow> AssertFails
               | NullDeref \<Rightarrow> NullDeref
               | Diverges \<Rightarrow> Diverges))"

subsection \<open>Stage 3: the loop, and the file as a whole\<close>

fun stage3 ::
  "planet_class \<Rightarrow> bool \<Rightarrow> settings \<Rightarrow> string list \<Rightarrow> solar_system \<Rightarrow> solar_system outcome"
  where
  "stage3 pc debugBuild pd [] st = Returns st"
| "stage3 pc debugBuild pd (secname # rest) st =
     (case processSection pc debugBuild pd secname st of
        Returns (Inl r) \<Rightarrow> stage3 pc debugBuild pd rest st
      | Returns (Inr st') \<Rightarrow> stage3 pc debugBuild pd rest st'
      | Exits \<Rightarrow> Exits
      | AssertFails \<Rightarrow> AssertFails
      | NullDeref \<Rightarrow> NullDeref
      | Diverges \<Rightarrow> Diverges)"

text \<open>\<open>bool SolarSystem::loadPlanets(const QString& filePath)\<close>.\<close>

definition loadPlanetsFile ::
  "planet_class \<Rightarrow> bool \<Rightarrow> settings \<Rightarrow> solar_system \<Rightarrow> (bool \<times> solar_system) outcome" where
  "loadPlanetsFile pc debugBuild pd st =
     (if \<not> status_ok pd then Returns (False, st)
      else (case orderedSections pd of
              None \<Rightarrow> Diverges
            | Some ordered \<Rightarrow>
                map_outcome (\<lambda>st'. (systemPlanets st' \<noteq> [], st'))
                  (stage3 pc debugBuild pd ordered st)))"

subsection \<open>The two files\<close>

text \<open>
  What \<open>loadPlanets()\<close> does when a minor-bodies file did not load: every body of
  \<open>systemPlanets\<close> with \<open>pType >= Planet::isAsteroid\<close> has its \<open>satellites\<close> cleared, then
  \<open>systemPlanets.clear()\<close>.  (Renaming the file is outside the catalogue.)
\<close>

definition removeMinorBodies :: "planet_class \<Rightarrow> solar_system \<Rightarrow> solar_system" where
  "removeMinorBodies pc st =
     st\<lparr>obj := fold (\<lambda>p store. if isAsteroid pc \<le> pType (store p)
                                 then store(p := (store p)\<lparr>satellites := []\<rparr>) else store)
                  (systemPlanets st) (obj st),
        systemPlanets := []\<rparr>"

fun loadMinorFiles ::
  "planet_class \<Rightarrow> bool \<Rightarrow> settings list \<Rightarrow> solar_system \<Rightarrow> solar_system outcome" where
  "loadMinorFiles pc debugBuild [] st = Returns st"
| "loadMinorFiles pc debugBuild (pd # rest) st =
     (case loadPlanetsFile pc debugBuild pd st of
        Returns (ok, st') \<Rightarrow>
          if ok then Returns st'
          else loadMinorFiles pc debugBuild rest (removeMinorBodies pc st')
      | Exits \<Rightarrow> Exits
      | AssertFails \<Rightarrow> AssertFails
      | NullDeref \<Rightarrow> NullDeref
      | Diverges \<Rightarrow> Diverges)"

definition countShadowPlanets :: "solar_system \<Rightarrow> solar_system" where
  "countShadowPlanets st =
     st\<lparr>shadowPlanetCount :=
          length (filter (\<lambda>p. parent (obj st p) \<noteq> sun st \<or> satellites (obj st p) \<noteq> [])
                    (systemPlanets st))\<rparr>"

text \<open>
  \<open>void SolarSystem::loadPlanets()\<close>.  \<open>majorFile\<close> is what \<open>findFile\<close> found for
  \<open>data/ssystem_major.ini\<close> (\<open>None\<close> when nothing), \<open>minorFiles\<close> what
  \<open>findFileInAllPaths\<close> found for \<open>data/ssystem_minor.ini\<close>.
\<close>

definition loadPlanets ::
  "planet_class \<Rightarrow> bool \<Rightarrow> settings option \<Rightarrow> settings list \<Rightarrow> solar_system
     \<Rightarrow> solar_system outcome" where
  "loadPlanets pc debugBuild majorFile minorFiles st0 =
     (let st = st0\<lparr>minorBodies := []\<rparr> in
      case majorFile of
        None \<Rightarrow> Returns st
      | Some pd \<Rightarrow>
          (case loadPlanetsFile pc debugBuild pd st of
             Returns (ok, st1) \<Rightarrow>
               if \<not> ok then Returns st1
               else if minorFiles = [] then Returns st1
               else map_outcome countShadowPlanets (loadMinorFiles pc debugBuild minorFiles st1)
           | Exits \<Rightarrow> Exits
           | AssertFails \<Rightarrow> AssertFails
           | NullDeref \<Rightarrow> NullDeref
           | Diverges \<Rightarrow> Diverges))"


section \<open>Notions used to state the properties\<close>

text \<open>
  A catalogue file is valid when its bodies have pairwise different, non-empty names, each
  written in simplified form (no white space at the ends, single blanks inside), and every
  chain of declared parents ends: from the name of each section, at most as many steps as
  there are sections lead to a name without an entry in the parent map.  (A chain without
  a cycle cannot be longer.)  \<open>chainLength\<close> counts the steps of such a chain.

  The form of the names matters because stages 1 and 2 read the name as written, while
  stage 3 gives the body the simplified name and finds a parent by the name that the body
  got.
\<close>

fun parentChainEnds :: "(string \<rightharpoonup> string) \<Rightarrow> nat \<Rightarrow> string \<Rightarrow> bool" where
  "parentChainEnds pm 0 p = (case pm p of None \<Rightarrow> True | Some q \<Rightarrow> q = ''none'')"
| "parentChainEnds pm (Suc n) p =
     (case pm p of None \<Rightarrow> True | Some q \<Rightarrow> q = ''none'' \<or> parentChainEnds pm n q)"

fun chainLength :: "(string \<rightharpoonup> string) \<Rightarrow> nat \<Rightarrow> string \<Rightarrow> nat" where
  "chainLength pm 0 p = 0"
| "chainLength pm (Suc n) p =
     (case pm p of None \<Rightarrow> 0 | Some q \<Rightarrow> if q = ''none'' then 0 else Suc (chainLength pm n q))"

definition validCatalogue :: "settings \<Rightarrow> bool" where
  "validCatalogue pd =
     (distinct (map (nameOf pd) (childGroups pd))
      \<and> (\<forall>s \<in> set (childGroups pd).
            nameOf pd s \<noteq> []
            \<and> simplified (nameOf pd s) = nameOf pd s
            \<and> parentChainEnds (parentMap_of pd) (length (childGroups pd)) (nameOf pd s)))"

text \<open>The level that stage 2a computes for a section (\<open>None\<close>: the walk does not end).\<close>

definition sectionLevel :: "settings \<Rightarrow> string \<Rightarrow> nat option" where
  "sectionLevel pd secname = followParents (parentMap_of pd) (nameOf pd secname) 0"

text \<open>\<open>y\<close> occurs in the list somewhere after the first \<open>x\<close>.\<close>

definition comesBefore :: "'a \<Rightarrow> 'a \<Rightarrow> 'a list \<Rightarrow> bool" where
  "comesBefore x y xs = (y \<in> set (drop 1 (dropWhile (\<lambda>z. z \<noteq> x) xs)))"

text \<open>The parent lookup of stage 3 does not end in \<open>continue\<close>.\<close>

definition parentResolves :: "settings \<Rightarrow> string \<Rightarrow> solar_system \<Rightarrow> bool" where
  "parentResolves pd secname st =
     (parentOf pd secname = ''none'' \<or> searchByEnglishName st (parentOf pd secname) \<noteq> None)"

text \<open>
  \<open>new\<close> never hands out the address of a live object: the bodies of the catalogue lie
  below the next address of the allocator.
\<close>

definition allocated :: "solar_system \<Rightarrow> bool" where
  "allocated st = (\<forall>a \<in> set (systemPlanets st). a < nextAddr st)"

subsection \<open>A small catalogue\<close>

text \<open>
  One instance of the \<open>Planet\<close> members that are parameters, with the major types below
  \<open>isAsteroid\<close>; an empty catalogue; a major-bodies file with Sun, Earth, Mars, Moon and a
  body \<open>Phobos2\<close> whose parent \<open>Mars2\<close> does not exist (sections in the sorted order of
  \<open>childGroups\<close>); a minor-bodies file with one asteroid; and a file that does not parse.
\<close>

definition demo_class :: planet_class where
  "demo_class =
     \<lparr>isAsteroid = 5,
      pTypeOfString = (\<lambda>s. if s = ''star'' then 0 else if s = ''planet'' then 1
                           else if s = ''moon'' then 2 else if s = ''asteroid'' then 5
                           else if s = ''comet'' then 7 else 13),
      getPlanetTypeString = typeStr,
      getNameI18n = englishName\<rparr>"

definition empty_system :: solar_system where
  "empty_system =
     \<lparr>obj = (\<lambda>a. \<lparr>englishName = [], bodyClass = PlanetClass, pType = 0, typeStr = [],
                   parent = None, satellites = [], orbitPtr = None,
                   coordFunc = SpecialPosFunc []\<rparr>),
      systemPlanets = [], orbits = [], sun = None, earth = None, moon = None,
      minorBodies = [], shadowPlanetCount = 0, nextAddr = 0\<rparr>"

definition major_ini :: settings where
  "major_ini =
     \<lparr>status_ok = True,
      childGroups = [''earth'', ''mars'', ''moon'', ''phobos2'', ''sun''],
      strValue = map_of
        [(''earth/name'', ''Earth''), (''earth/coord_func'', ''earth_special''),
         (''earth/type'', ''planet''),
         (''mars/name'', ''Mars''), (''mars/coord_func'', ''mars_special''),
         (''mars/type'', ''planet''),
         (''moon/name'', ''Moon''), (''moon/parent'', ''Earth''),
         (''moon/coord_func'', ''lunar_special''), (''moon/type'', ''moon''),
         (''phobos2/name'', ''Phobos2''), (''phobos2/parent'', ''Mars2''),
         (''phobos2/coord_func'', ''phobos_special''), (''phobos2/type'', ''moon''),
         (''sun/name'', ''Sun''), (''sun/parent'', ''none''),
         (''sun/coord_func'', ''sun_special''), (''sun/type'', ''star'')],
      numValue = Map.empty\<rparr>"

definition minor_ini :: settings where
  "minor_ini =
     \<lparr>status_ok = True,
      childGroups = [''ceres''],
      strValue = map_of
        [(''ceres/name'', ''Ceres''), (''ceres/coord_func'', ''comet_orbit''),
         (''ceres/type'', ''asteroid'')],
      numValue = map_of
        [(''ceres/orbit_SemiMajorAxis'', 2.7675), (''ceres/orbit_Eccentricity'', 0.0758),
         (''ceres/orbit_Epoch'', 2458200.5), (''ceres/orbit_MeanAnomaly'', 77.37)]\<rparr>"


definition spaces_ini :: settings where
  "spaces_ini =
     \<lparr>status_ok = True,
      childGroups = [''a'', ''b'', ''sun''],
      strValue = map_of
        [(''a/name'', ''Big  Rock''), (''a/coord_func'', ''mars_special''),
         (''a/type'', ''planet''),
         (''b/name'', ''Pebble''), (''b/parent'', ''Big Rock''),
         (''b/coord_func'', ''phobos_special''), (''b/type'', ''moon''),
         (''sun/name'', ''Sun''), (''sun/parent'', ''none''),
         (''sun/coord_func'', ''sun_special''), (''sun/type'', ''star'')],
      numValue = Map.empty\<rparr>"

definition phobos2_only_ini :: settings where
  "phobos2_only_ini =
     \<lparr>status_ok = True,
      childGroups = [''phobos2''],
      strValue = map_of
        [(''phobos2/name'', ''Phobos2''), (''phobos2/parent'', ''Mars2''),
         (''phobos2/coord_func'', ''phobos_special''), (''phobos2/type'', ''moon'')],
      numValue = Map.empty\<rparr>"

definition broken_ini :: settings where
  "broken_ini =
     \<lparr>status_ok = False, childGroups = [], strValue = Map.empty, numValue = Map.empty\<rparr>"

text \<open>
  Two records with an unknown \<open>coord_func\<close>: one with a parent that does not exist, one
  with the default parent \<open>Sun\<close>.
\<close>

definition bogus_ini :: settings where
  "bogus_ini =
     \<lparr>status_ok = True,
      childGroups = [''phobos2'', ''vulcan''],
      strValue = map_of
        [(''phobos2/name'', ''Phobos2''), (''phobos2/parent'', ''Mars2''),
         (''phobos2/coord_func'', ''bogus_special''), (''phobos2/type'', ''moon''),
         (''vulcan/name'', ''Vulcan''), (''vulcan/coord_func'', ''vulcan_special''),
         (''vulcan/type'', ''planet'')],
      numValue = Map.empty\<rparr>"

text \<open>
  A catalogue with major bodies, and the asteroid Ceres at address 5 with its orbit object
  at address 4.
\<close>

definition demo_system :: solar_system where
  "demo_system =
     \<lparr>obj = (obj empty_system)
        (0 := \<lparr>englishName = ''Sun'', bodyClass = PlanetClass, pType = 0, typeStr = ''star'',
               parent = None, satellites = [1, 2, 5], orbitPtr = None,
               coordFunc = SpecialPosFunc ''sun_special''\<rparr>,
         1 := \<lparr>englishName = ''Mars'', bodyClass = PlanetClass, pType = 1, typeStr = ''planet'',
               parent = Some 0, satellites = [], orbitPtr = None,
               coordFunc = SpecialPosFunc ''mars_special''\<rparr>,
         2 := \<lparr>englishName = ''Earth'', bodyClass = PlanetClass, pType = 1,
               typeStr = ''planet'', parent = Some 0, satellites = [3], orbitPtr = None,
               coordFunc = SpecialPosFunc ''earth_special''\<rparr>,
         3 := \<lparr>englishName = ''Moon'', bodyClass = PlanetClass, pType = 2, typeStr = ''moon'',
               parent = Some 2, satellites = [], orbitPtr = None,
               coordFunc = SpecialPosFunc ''lunar_special''\<rparr>,
         5 := \<lparr>englishName = ''Ceres'', bodyClass = MinorPlanetClass, pType = 5,
               typeStr = ''asteroid'', parent = Some 0, satellites = [], orbitPtr = Some 4,
               coordFunc = CometOrbitPosFunc\<rparr>),
      systemPlanets = [0, 1, 2, 3, 5], orbits = [4], sun = Some 0, earth = Some 2,
      moon = Some 3, minorBodies = [''Ceres''], shadowPlanetCount = 3, nextAddr = 6\<rparr>"


section \<open>The position engine\<close>

text \<open>
  Times (JDE, in days) and \<open>Vec3d\<close> are doubles in the source.  Their arithmetic is not
  modelled: the operations are parameters, so that what is proved holds for IEEE doubles
  as for real numbers.  \<open>lightDaysPerAU\<close> is the constant expression
  \<open>AU / (SPEED_OF_LIGHT * 86400.)\<close>, whose macros are defined in StelUtils.hpp (not among
  the sources).
\<close>

record ('t, 'v) arithmetic =
  vzero :: 'v
  vadd :: "'v \<Rightarrow> 'v \<Rightarrow> 'v"
  vsub :: "'v \<Rightarrow> 'v \<Rightarrow> 'v"
  vlength :: "'v \<Rightarrow> 't"
  tsub :: "'t \<Rightarrow> 't \<Rightarrow> 't"
  tmul :: "'t \<Rightarrow> 't \<Rightarrow> 't"
  lightDaysPerAU :: 't

text \<open>
  The positions that a simulation step recomputes: \<open>eclipticPos\<close> of every body, in the
  frame of its orbit model, and the member \<open>lightTimeSunPosition\<close> of \<open>SolarSystem\<close>.
\<close>

record 'v positions =
  eclipticPos :: "nat \<Rightarrow> 'v"
  lightTimeSunPosition :: 'v

definition Planet_computePosition ::
  "(nat \<Rightarrow> 't \<Rightarrow> 'v) \<Rightarrow> nat \<Rightarrow> 't \<Rightarrow> 'v positions \<Rightarrow> 'v positions" where
  \<comment> \<open>Modelled from the spec: \<open>Planet::computePosition\<close> is defined in Planet.cpp, which is
      not among the sources.  Spec 4.2 and 4.3: an orbit model maps a time to a position
      in the frame of its variant (parent-relative for a satellite), and computing a
      body's position is evaluating its orbit model at the given time.  \<open>positionAt p\<close>
      is the orbit model of the body at address \<open>p\<close>.\<close>
  "Planet_computePosition positionAt p dateJDE ps =
     ps\<lparr>eclipticPos := (eclipticPos ps)(p := positionAt p dateJDE)\<rparr>"

definition Planet_computePositionWithoutOrbits ::
  "(nat \<Rightarrow> 't \<Rightarrow> 'v) \<Rightarrow> nat \<Rightarrow> 't \<Rightarrow> 'v positions \<Rightarrow> 'v positions" where
  \<comment> \<open>Modelled from the spec: \<open>Planet::computePositionWithoutOrbits\<close> is defined in
      Planet.cpp, which is not among the sources.  Spec 4.3, pass 1: it computes the body's
      position at the given time, ignoring light delay.\<close>
  "Planet_computePositionWithoutOrbits positionAt p dateJDE ps =
     ps\<lparr>eclipticPos := (eclipticPos ps)(p := positionAt p dateJDE)\<rparr>"

text \<open>
  Composition of positions up a parent chain: the position of the body, then of its
  parent, of the parent's parent, and so on, added up on the way.  On a cycle of parent
  links the walk does not end (\<open>None\<close>).
\<close>

partial_function (option) composeChain ::
  "(nat \<Rightarrow> nat option) \<Rightarrow> ('v \<Rightarrow> 'v \<Rightarrow> 'v) \<Rightarrow> (nat \<Rightarrow> 'v) \<Rightarrow> 'v \<Rightarrow> nat \<Rightarrow> 'v option" where
  "composeChain par add pos acc p =
     (case par p of
        None \<Rightarrow> Some acc
      | Some q \<Rightarrow> composeChain par add pos (add acc (pos q)) q)"

declare composeChain.simps [code]

definition getHeliocentricEclipticPos ::
  "('t, 'v) arithmetic \<Rightarrow> solar_system \<Rightarrow> 'v positions \<Rightarrow> nat \<Rightarrow> 'v option" where
  \<comment> \<open>Modelled from the spec: \<open>Planet::getHeliocentricEclipticPos\<close> is defined in
      Planet.cpp, which is not among the sources.  Spec 4.3 and 8: a body's parent-relative
      position is resolved on demand, composed through the parent chain.\<close>
  "getHeliocentricEclipticPos ar st ps p =
     composeChain (\<lambda>a. parent (obj st a)) (vadd ar) (eclipticPos ps) (eclipticPos ps p) p"

text \<open>
  The spec's words for the instantaneous position of a body at time \<open>T\<close>: its orbit
  model's raw \<open>positionAt(T)\<close> composed through the parent chain, with zero time offset.
\<close>

definition composedPositionAt ::
  "('t, 'v) arithmetic \<Rightarrow> (nat \<Rightarrow> 't \<Rightarrow> 'v) \<Rightarrow> solar_system \<Rightarrow> 't \<Rightarrow> nat \<Rightarrow> 'v option" where
  "composedPositionAt ar positionAt st T p =
     composeChain (\<lambda>a. parent (obj st a)) (vadd ar) (\<lambda>b. positionAt b T) (positionAt p T) p"

text \<open>The last loop of the light-time branch of \<open>computePositions\<close>.\<close>

fun lightTimePass ::
  "('t, 'v) arithmetic \<Rightarrow> (nat \<Rightarrow> 't \<Rightarrow> 'v) \<Rightarrow> solar_system \<Rightarrow> 't \<Rightarrow> 'v \<Rightarrow> nat list
     \<Rightarrow> 'v positions \<Rightarrow> 'v positions option" where
  "lightTimePass ar positionAt st dateJDE obsPosJDE [] ps = Some ps"
| "lightTimePass ar positionAt st dateJDE obsPosJDE (p # rest) ps =
     (case getHeliocentricEclipticPos ar st ps p of
        None \<Rightarrow> None
      | Some h \<Rightarrow>
          let light_speed_correction =
                tmul ar (vlength ar (vsub ar h obsPosJDE)) (lightDaysPerAU ar)
          in lightTimePass ar positionAt st dateJDE obsPosJDE rest
               (Planet_computePosition positionAt p (tsub ar dateJDE light_speed_correction) ps))"

text \<open>
  \<open>SolarSystem::computePositions\<close>, as far as positions go (the closing call of
  \<open>computeTransMatrices\<close> sets the rotation matrices).  \<open>None\<close> is a call that does not
  return.
\<close>

definition computePositions ::
  "('t, 'v) arithmetic \<Rightarrow> (nat \<Rightarrow> 't \<Rightarrow> 'v) \<Rightarrow> solar_system \<Rightarrow> bool \<Rightarrow> 't \<Rightarrow> nat
     \<Rightarrow> 'v positions \<Rightarrow> 'v positions option" where
  "computePositions ar positionAt st flagLightTravelTime dateJDE observerPlanet ps =
     (if flagLightTravelTime
      then
        (let ps1 = fold (\<lambda>p. Planet_computePositionWithoutOrbits positionAt p dateJDE)
                     (systemPlanets st) ps
         in case getHeliocentricEclipticPos ar st ps1 observerPlanet of
              None \<Rightarrow> None
            | Some obsPosJDE \<Rightarrow>
                let obsDist = vlength ar obsPosJDE;
                    ps2 = Planet_computePosition positionAt observerPlanet
                            (tsub ar dateJDE (tmul ar obsDist (lightDaysPerAU ar))) ps1
                in (case getHeliocentricEclipticPos ar st ps2 observerPlanet of
                      None \<Rightarrow> None
                    | Some obsPosJDEbefore \<Rightarrow>
                        let ps3 = ps2\<lparr>lightTimeSunPosition := vsub ar obsPosJDE obsPosJDEbefore\<rparr>;
                            ps4 = Planet_computePosition positionAt observerPlanet dateJDE ps3
                        in lightTimePass ar positionAt st dateJDE obsPosJDE
                             (systemPlanets st) ps4))
      else
        Some ((fold (\<lambda>p. Planet_computePosition positionAt p dateJDE) (systemPlanets st) ps)
                \<lparr>lightTimeSunPosition := vzero ar\<rparr>))"

text \<open>
  Parent links as the loader leaves them: the parent of a catalogued body is itself
  catalogued and was constructed, hence allocated, earlier.
\<close>

definition linksWellFormed :: "solar_system \<Rightarrow> bool" where
  "linksWellFormed st =
     (\<forall>a \<in> set (systemPlanets st).
        case parent (obj st a) of None \<Rightarrow> True | Some q \<Rightarrow> q < a \<and> q \<in> set (systemPlanets st))"

text \<open>
  The delay that pass 3 subtracts for a body whose heliocentric position reads \<open>h\<close>:
  its distance from the observer's position, times the light time per astronomical unit.
\<close>

definition lightDelay :: "('t, 'v) arithmetic \<Rightarrow> 'v \<Rightarrow> 'v \<Rightarrow> 't" where
  "lightDelay ar h obsPosJDE = tmul ar (vlength ar (vsub ar h obsPosJDE)) (lightDaysPerAU ar)"

subsection \<open>An instance of the arithmetic and of the orbit models\<close>

text \<open>
  Real numbers in place of doubles, vectors as triples with the Euclidean length, and the
  values of \<open>AU\<close> (km) and \<open>SPEED_OF_LIGHT\<close> (km/s).  The orbit models are straight lines
  along the first axis: Mars rests at 1.5 AU, Earth moves through 1 AU, the Moon moves
  relative to Earth, Ceres rests at 3 AU, the Sun at the origin.
\<close>

definition euclid :: "real \<times> real \<times> real \<Rightarrow> real" where
  "euclid v = (case v of (x, y, z) \<Rightarrow> sqrt (x * x + y * y + z * z))"

definition real_arith :: "(real, real \<times> real \<times> real) arithmetic" where
  "real_arith =
     \<lparr>vzero = (0, 0, 0),
      vadd = (\<lambda>(a, b, c) (x, y, z). (a + x, b + y, c + z)),
      vsub = (\<lambda>(a, b, c) (x, y, z). (a - x, b - y, c - z)),
      vlength = euclid,
      tsub = (-),
      tmul = (*),
      lightDaysPerAU = 149597870.691 / (299792.458 * 86400)\<rparr>"

definition line_positionAt :: "nat \<Rightarrow> real \<Rightarrow> real \<times> real \<times> real" where
  "line_positionAt p t =
     (if p = 1 then (3 / 2, 0, 0)
      else if p = 2 then (1 + t / 50, 0, 0)
      else if p = 3 then ((1 + t) / 400, 0, 0)
      else if p = 5 then (3, 0, 0)
      else (0, 0, 0))"

definition start_positions :: "(real \<times> real \<times> real) positions" where
  "start_positions = \<lparr>eclipticPos = (\<lambda>p. (0, 0, 0)), lightTimeSunPosition = (1, 1, 1)\<rparr>"


definition moon_first_system :: solar_system where
  "moon_first_system = demo_system\<lparr>systemPlanets := [0, 1, 3, 2, 5]\<rparr>"

section \<open>The eclipse factor\<close>

text \<open>
  \<open>getEclipseFactor\<close> computes with doubles.  The scalar type is a parameter that only
  carries the syntax of \<open>0\<close>, \<open>1\<close>, \<open>+\<close>, \<open>-\<close>, \<open>*\<close>, \<open>/\<close>, \<open>\<le>\<close> and \<open><\<close>, with no law
  assumed, so that a statement about the model holds for IEEE doubles (rounding, NaN) as
  for real numbers; \<open>a >= b\<close> of the source is \<open>b \<le> a\<close>.  The literals \<open>2.0\<close> and \<open>0.5\<close>, the
  functions \<open>acos\<close>, \<open>sin\<close> and \<open>asin\<close>, and the operations of \<open>Vec3d\<close> are further
  parameters.
\<close>

record ('s, 'v) double_funs =
  d_two :: 's
  d_half :: 's
  d_acos :: "'s \<Rightarrow> 's"
  d_sin :: "'s \<Rightarrow> 's"
  d_asin :: "'s \<Rightarrow> 's"
  v_minus :: "'v \<Rightarrow> 'v \<Rightarrow> 'v"
  v_length :: "'v \<Rightarrow> 's"
  v_div :: "'v \<Rightarrow> 's \<Rightarrow> 'v"

text \<open>
  What the function reads from outside: \<open>getLightTimeSunPosition()\<close>, the observer's
  heliocentric position and current planet from \<open>core\<close>, and of each body its radius
  (\<open>Planet::getRadius\<close>) and its centre, the image of the origin under the matrix that
  \<open>Planet::computeModelMatrix\<close> fills in.  The two \<open>Planet\<close> members are defined in
  Planet.cpp, not among the sources, and are parameters.
\<close>

record ('s, 'v) eclipse_view =
  view_Lp :: 'v
  view_P3 :: 'v
  view_currentPlanet :: "nat option"
  view_getRadius :: "nat \<Rightarrow> 's"
  view_centre :: "nat \<Rightarrow> 'v"

text \<open>The four regimes on \<open>d\<close> against \<open>R\<close> and \<open>r\<close>, in the order of the source.\<close>

definition illumination ::
  "('s::{zero,one,plus,minus,times,inverse,ord}, 'v) double_funs \<Rightarrow> 's \<Rightarrow> 's \<Rightarrow> 's \<Rightarrow> 's" where
  "illumination funs R r d =
     (if R + r \<le> d then 1
      else if d \<le> r - R then 0
      else if d \<le> R - r then 1 - r * r / (R * R)
      else
        (let x = (R * R + d * d - r * r) / (d_two funs * d);
             alpha = d_acos funs (x / R);
             beta = d_acos funs ((d - x) / r);
             AR = R * R * (alpha - d_half funs * d_sin funs (d_two funs * alpha));
             Ar = r * r * (beta - d_half funs * d_sin funs (d_two funs * beta));
             AS = R * R * d_two funs * d_asin funs 1
         in 1 - (AR + Ar) / AS))"

text \<open>
  The body of the loop up to \<open>illumination\<close>, for one body that is not skipped.  (For the
  body named \<open>Moon\<close> the source then assigns to \<open>v1\<close>, which is not read again.)
\<close>

definition occluderContribution ::
  "('s::{zero,one,plus,minus,times,inverse,ord}, 'v) double_funs \<Rightarrow> ('s, 'v) eclipse_view
     \<Rightarrow> 's \<Rightarrow> nat \<Rightarrow> 's" where
  "occluderContribution funs view RS planet =
     (let C = view_centre view planet;
          radius = view_getRadius view planet;
          v1 = v_minus funs (view_Lp view) (view_P3 view);
          v2 = v_minus funs C (view_P3 view);
          L = v_length funs v1;
          l = v_length funs v2;
          v1' = v_div funs v1 L;
          v2' = v_div funs v2 l;
          R = RS / L;
          r = radius / l;
          d = v_length funs (v_minus funs v1' v2')
      in illumination funs R r d)"

text \<open>
  \<open>double SolarSystem::getEclipseFactor(const StelCore* core) const\<close>.  It reads
  \<open>sun->getRadius()\<close> first, whatever \<open>sun\<close> is.
\<close>

definition getEclipseFactor ::
  "('s::{zero,one,plus,minus,times,inverse,ord}, 'v) double_funs \<Rightarrow> ('s, 'v) eclipse_view
     \<Rightarrow> solar_system \<Rightarrow> 's outcome" where
  "getEclipseFactor funs view st =
     (case sun st of
        None \<Rightarrow> NullDeref
      | Some s \<Rightarrow>
          Returns
            (fold (\<lambda>planet final_illumination.
                     if Some planet = sun st \<or> Some planet = view_currentPlanet view
                     then final_illumination
                     else
                       let illumination =
                             occluderContribution funs view (view_getRadius view s) planet
                       in if illumination < final_illumination then illumination
                          else final_illumination)
               (systemPlanets st) 1))"

text \<open>
  The bodies that the loop does not skip, and what a strict order asks of \<open><\<close> (holds of
  the \<open><\<close> of doubles, NaN included, and of the real numbers).
\<close>

definition occluders :: "('s, 'v) eclipse_view \<Rightarrow> solar_system \<Rightarrow> nat list" where
  "occluders view st =
     filter (\<lambda>planet. Some planet \<noteq> sun st \<and> Some planet \<noteq> view_currentPlanet view)
       (systemPlanets st)"

definition strictOrder :: "('s \<Rightarrow> 's \<Rightarrow> bool) \<Rightarrow> bool" where
  "strictOrder lt = ((\<forall>a. \<not> lt a a) \<and> (\<forall>a b c. lt a b \<and> lt b c \<longrightarrow> lt a c))"

subsection \<open>Numbers with NaN\<close>

text \<open>
  An instance of the scalar type: a number or NaN.  Every operation with a NaN operand
  gives NaN, every comparison with NaN is false, \<open>0 / 0\<close> is NaN, as for doubles.
  Rounding and the infinities are not represented (a non-zero number over zero is NaN
  here).  Vectors are triples.
\<close>

datatype fp = Num real | NaN

instantiation fp :: "{zero,one,plus,minus,times,inverse,ord}"
begin

definition zero_fp :: fp where "zero_fp = Num 0"

definition one_fp :: fp where "one_fp = Num 1"

fun plus_fp :: "fp \<Rightarrow> fp \<Rightarrow> fp" where
  "plus_fp (Num a) (Num b) = Num (a + b)"
| "plus_fp a b = NaN"

fun minus_fp :: "fp \<Rightarrow> fp \<Rightarrow> fp" where
  "minus_fp (Num a) (Num b) = Num (a - b)"
| "minus_fp a b = NaN"

fun times_fp :: "fp \<Rightarrow> fp \<Rightarrow> fp" where
  "times_fp (Num a) (Num b) = Num (a * b)"
| "times_fp a b = NaN"

fun divide_fp :: "fp \<Rightarrow> fp \<Rightarrow> fp" where
  "divide_fp (Num a) (Num b) = (if b = 0 then NaN else Num (a / b))"
| "divide_fp a b = NaN"

fun inverse_fp :: "fp \<Rightarrow> fp" where
  "inverse_fp (Num a) = (if a = 0 then NaN else Num (1 / a))"
| "inverse_fp NaN = NaN"

fun less_eq_fp :: "fp \<Rightarrow> fp \<Rightarrow> bool" where
  "less_eq_fp (Num a) (Num b) = (a \<le> b)"
| "less_eq_fp a b = False"

fun less_fp :: "fp \<Rightarrow> fp \<Rightarrow> bool" where
  "less_fp (Num a) (Num b) = (a < b)"
| "less_fp a b = False"

instance ..

end







definition eclipse_view :: "(fp, fp \<times> fp \<times> fp) eclipse_view" where
  "eclipse_view =
     \<lparr>view_Lp = (Num 0, Num 0, Num 0),
      view_P3 = (Num 1, Num 0, Num 0),
      view_currentPlanet = Some 2,
      view_getRadius = (\<lambda>p. if p = 0 then Num (1 / 256) else Num (1 / 1024)),
      view_centre = (\<lambda>p. if p = 3 then (Num (3 / 4), Num 0, Num 0)
                          else if p = 2 then (Num 1, Num 0, Num 0) else (Num 0, Num 0, Num 0))\<rparr>"


section \<open>Removal and listings\<close>

lemma find_Some_mem: "find P xs = Some c \<Longrightarrow> c \<in> set xs \<and> P c"
  by (induction xs) (auto split: if_splits)

lemma remove1_map_find:
  "find (\<lambda>p. f p = n) xs = Some c \<Longrightarrow> map f (remove1 c xs) = remove1 n (map f xs)"
proof (induction xs)
  case Nil
  then show ?case by simp
next
  case (Cons x xs)
  have fc: "f c = n" using find_Some_mem [OF Cons.prems] by simp
  show ?case
  proof (cases "f x = n")
    case True
    with Cons.prems have "c = x" by simp
    with True show ?thesis by simp
  next
    case False
    with fc have "x \<noteq> c" by auto
    moreover from False Cons.prems have "find (\<lambda>p. f p = n) xs = Some c" by simp
    ultimately show ?thesis using False Cons.IH by simp
  qed
qed

lemma demo_listing:
  "listAllObjects demo_class True demo_system = [''Sun'', ''Mars'', ''Earth'', ''Moon'', ''Ceres'']"
  by code_simp

text \<open>
  Claim C9.  A name that no catalogued body carries: \<open>removePlanet\<close> returns \<open>false\<close> and
  the whole state (body list, orbit list, every object with its parent and satellite
  links) is the one before the call.
\<close>

theorem removePlanet_unknown_name:
  assumes "name \<notin> set (listAllObjects pc True st)"
  shows "removePlanet pc debugBuild name st = Returns (False, st)"
proof -
  from assms have "searchByEnglishName st name = None"
    by (force simp: searchByEnglishName_def listAllObjects_def find_None_iff)
  then show ?thesis by (simp add: removePlanet_def)
qed

theorem removePlanet_unknown_name_witness:
  "''Vulcan'' \<notin> set (listAllObjects demo_class True demo_system)
   \<and> removePlanet demo_class True ''Vulcan'' demo_system = Returns (False, demo_system)"
proof -
  have h: "''Vulcan'' \<notin> set (listAllObjects demo_class True demo_system)"
    by (simp add: demo_listing)
  from removePlanet_unknown_name [OF h, of True] h show ?thesis by simp
qed

text \<open>
  Claim C5, as stated, fails: in a build without assertions a request that names the
  major body Moon is accepted, and the Moon is gone from the listing.
\<close>

theorem removePlanet_major_counterexample:
  "pType (obj demo_system 3) < isAsteroid demo_class
   \<and> englishName (obj demo_system 3) = ''Moon''
   \<and> map_outcome (\<lambda>(ok, st). (ok, listAllObjects demo_class True st))
        (removePlanet demo_class False ''Moon'' demo_system)
      = Returns (True, [''Sun'', ''Mars'', ''Earth'', ''Ceres''])"
  by code_simp

text \<open>
  Claim C5, amended.  \<open>removePlanet\<close> takes out the first body that carries the name,
  whatever its category.  For a major body in a build with assertions it stops at
  \<open>Q_ASSERT(0)\<close>.  Otherwise it returns \<open>true\<close>; the body leaves \<open>systemPlanets\<close> and its
  orbit object, if it has one, leaves \<open>orbits\<close>; the objects and the three aliases are
  untouched; every other body stays; the listing loses one occurrence of the name, and the
  name altogether when the names are pairwise different.
\<close>

theorem removePlanet_named_body:
  assumes "searchByEnglishName st name = Some candidate"
  shows "(pType (obj st candidate) < isAsteroid pc \<and> debugBuild \<longrightarrow>
            removePlanet pc debugBuild name st = AssertFails)
     \<and> (isAsteroid pc \<le> pType (obj st candidate) \<or> \<not> debugBuild \<longrightarrow>
          (\<exists>st'. removePlanet pc debugBuild name st = Returns (True, st')
             \<and> systemPlanets st' = remove1 candidate (systemPlanets st)
             \<and> orbits st' = (case orbitPtr (obj st candidate) of
                                None \<Rightarrow> orbits st
                              | Some orbPtr \<Rightarrow> remove1 orbPtr (orbits st))
             \<and> obj st' = obj st \<and> sun st' = sun st \<and> earth st' = earth st \<and> moon st' = moon st
             \<and> (\<forall>p \<in> set (systemPlanets st). p \<noteq> candidate \<longrightarrow> p \<in> set (systemPlanets st'))
             \<and> listAllObjects pc True st' = remove1 name (listAllObjects pc True st)
             \<and> (distinct (listAllObjects pc True st) \<longrightarrow>
                  name \<notin> set (listAllObjects pc True st'))))"
proof (intro conjI impI)
  assume "pType (obj st candidate) < isAsteroid pc \<and> debugBuild"
  with assms show "removePlanet pc debugBuild name st = AssertFails"
    by (simp add: removePlanet_def)
next
  assume ok: "isAsteroid pc \<le> pType (obj st candidate) \<or> \<not> debugBuild"
  define st1 where "st1 = (case orbitPtr (obj st candidate) of
                         None \<Rightarrow> st
                       | Some orbPtr \<Rightarrow> st\<lparr>orbits := remove1 orbPtr (orbits st)\<rparr>)"
  define st' where "st' = st1\<lparr>systemPlanets := remove1 candidate (systemPlanets st1)\<rparr>"
  have st1: "systemPlanets st1 = systemPlanets st" "obj st1 = obj st" "sun st1 = sun st"
    "earth st1 = earth st" "moon st1 = moon st"
    "orbits st1 = (case orbitPtr (obj st candidate) of
                                None \<Rightarrow> orbits st
                              | Some orbPtr \<Rightarrow> remove1 orbPtr (orbits st))"
    by (simp_all add: st1_def split: option.splits)
  from ok assms have run: "removePlanet pc debugBuild name st = Returns (True, st')"
    by (auto simp: removePlanet_def st'_def st1_def Let_def)
  from assms have f: "find (\<lambda>p. getEnglishName st p = name) (systemPlanets st) = Some candidate"
    by (simp add: searchByEnglishName_def)
  have ge: "getEnglishName st' = getEnglishName st"
    by (simp add: fun_eq_iff getEnglishName_def st'_def st1)
  have names: "listAllObjects pc True st' = remove1 name (listAllObjects pc True st)"
    using remove1_map_find [OF f]
    by (simp add: listAllObjects_def ge) (simp add: st'_def st1)
  have gone: "distinct (listAllObjects pc True st) \<longrightarrow> name \<notin> set (listAllObjects pc True st')"
    by (simp add: names)
  have others: "\<forall>p \<in> set (systemPlanets st). p \<noteq> candidate \<longrightarrow> p \<in> set (systemPlanets st')"
    by (simp add: st'_def st1)
  from run st1 names gone others
  show "\<exists>st'. removePlanet pc debugBuild name st = Returns (True, st')
             \<and> systemPlanets st' = remove1 candidate (systemPlanets st)
             \<and> orbits st' = (case orbitPtr (obj st candidate) of
                                None \<Rightarrow> orbits st
                              | Some orbPtr \<Rightarrow> remove1 orbPtr (orbits st))
             \<and> obj st' = obj st \<and> sun st' = sun st \<and> earth st' = earth st \<and> moon st' = moon st
             \<and> (\<forall>p \<in> set (systemPlanets st). p \<noteq> candidate \<longrightarrow> p \<in> set (systemPlanets st'))
             \<and> listAllObjects pc True st' = remove1 name (listAllObjects pc True st)
             \<and> (distinct (listAllObjects pc True st) \<longrightarrow>
                  name \<notin> set (listAllObjects pc True st'))"
    by (intro exI [of _ st']) (simp add: st'_def)
qed

theorem removePlanet_named_body_witness:
  "searchByEnglishName demo_system ''Ceres'' = Some 5
   \<and> isAsteroid demo_class \<le> pType (obj demo_system 5)
   \<and> distinct (listAllObjects demo_class True demo_system)
   \<and> (\<exists>st'. removePlanet demo_class True ''Ceres'' demo_system = Returns (True, st')
         \<and> systemPlanets st' = [0, 1, 2, 3] \<and> orbits st' = []
         \<and> ''Ceres'' \<notin> set (listAllObjects demo_class True st'))
   \<and> searchByEnglishName demo_system ''Moon'' = Some 3
   \<and> pType (obj demo_system 3) < isAsteroid demo_class
   \<and> removePlanet demo_class True ''Moon'' demo_system = AssertFails"
proof -
  have c: "searchByEnglishName demo_system ''Ceres'' = Some 5" by code_simp
  have m: "searchByEnglishName demo_system ''Moon'' = Some 3" by code_simp
  have t: "isAsteroid demo_class \<le> pType (obj demo_system 5)"
    "pType (obj demo_system 3) < isAsteroid demo_class" by code_simp+
  have d: "distinct (listAllObjects demo_class True demo_system)"
    by (simp add: demo_listing)
  have o: "orbitPtr (obj demo_system 5) = Some 4" "orbits demo_system = [4]"
    "systemPlanets demo_system = [0, 1, 2, 3, 5]" by code_simp+
  from removePlanet_named_body [OF c, of demo_class True] t d o
  have "\<exists>st'. removePlanet demo_class True ''Ceres'' demo_system = Returns (True, st')
         \<and> systemPlanets st' = [0, 1, 2, 3] \<and> orbits st' = []
         \<and> ''Ceres'' \<notin> set (listAllObjects demo_class True st')"
    by auto
  moreover from removePlanet_named_body [OF m, of demo_class True] t
  have "removePlanet demo_class True ''Moon'' demo_system = AssertFails" by simp
  ultimately show ?thesis using c m t d by simp
qed




section \<open>The order of the sections\<close>

lemma multimap_insert_insort: "multimap_insert k v dm = insort_key fst (k, v) dm"
  by (induction dm) auto

lemma followParents_chain:
  "parentChainEnds pm n p \<Longrightarrow> followParents pm p k = Some (k + chainLength pm n p)"
proof (induction n arbitrary: p k)
  case 0
  then show ?case by (subst followParents.simps) (auto split: option.splits)
next
  case (Suc n)
  show ?case
  proof (cases "pm p")
    case None
    then show ?thesis by (subst followParents.simps) simp
  next
    case (Some q)
    show ?thesis
    proof (cases "q = ''none''")
      case True
      with Some show ?thesis by (subst followParents.simps) simp
    next
      case False
      with Some Suc.prems have "parentChainEnds pm n q" by simp
      from Suc.IH [OF this, of "Suc k"] Some False show ?thesis
        by (subst followParents.simps) simp
    qed
  qed
qed

lemma followParents_child:
  assumes "parentChainEnds pm n c" and "pm c = Some p" and "p \<noteq> ''none''"
  shows "\<exists>d. followParents pm p 0 = Some d \<and> followParents pm c 0 = Some (Suc d)"
proof (cases n)
  case 0
  with assms show ?thesis by simp
next
  case (Suc m)
  with assms have e: "parentChainEnds pm m p" by simp
  have "followParents pm c 0 = followParents pm p (Suc 0)"
    using assms by (subst followParents.simps) simp
  with followParents_chain [OF e, of 0] followParents_chain [OF e, of "Suc 0"]
  show ?thesis by simp
qed

lemma stage1_keep_secNameMap:
  "n \<notin> nameOf pd ` set ss \<Longrightarrow> fst (stage1 pd ss (sn, pm)) n = sn n"
  by (induction ss arbitrary: sn pm) (auto simp: Let_def)

lemma stage1_secNameMap:
  "distinct (map (nameOf pd) ss) \<Longrightarrow> s \<in> set ss \<Longrightarrow>
   fst (stage1 pd ss (sn, pm)) (nameOf pd s) = Some s"
proof (induction ss arbitrary: sn pm)
  case Nil
  then show ?case by simp
next
  case (Cons a ss)
  show ?case
  proof (cases "s = a")
    case True
    with Cons.prems have "nameOf pd a \<notin> nameOf pd ` set ss" by simp
    from stage1_keep_secNameMap [OF this] True show ?thesis by (simp add: Let_def)
  next
    case False
    with Cons show ?thesis by (simp add: Let_def)
  qed
qed

lemma stage1_keep_parentMap:
  "n \<notin> nameOf pd ` set ss \<Longrightarrow> snd (stage1 pd ss (sn, pm)) n = pm n"
  by (induction ss arbitrary: sn pm) (auto simp: Let_def)

lemma stage1_parentMap:
  "distinct (map (nameOf pd) ss) \<Longrightarrow> s \<in> set ss \<Longrightarrow>
   snd (stage1 pd ss (sn, pm)) (nameOf pd s) =
     (if parentOf pd s \<noteq> ''none'' \<and> parentOf pd s \<noteq> [] \<and> nameOf pd s \<noteq> []
      then Some (parentOf pd s) else pm (nameOf pd s))"
proof (induction ss arbitrary: sn pm)
  case Nil
  then show ?case by simp
next
  case (Cons a ss)
  show ?case
  proof (cases "s = a")
    case True
    with Cons.prems have "nameOf pd a \<notin> nameOf pd ` set ss" by simp
    from stage1_keep_parentMap [OF this] True show ?thesis by (simp add: Let_def)
  next
    case False
    with Cons.prems have mem: "s \<in> set ss" and d: "distinct (map (nameOf pd) ss)"
      and ne: "nameOf pd s \<noteq> nameOf pd a" by (auto simp: image_iff)
    from Cons.IH [OF d mem] ne show ?thesis by (simp add: Let_def)
  qed
qed

lemma stage2a_fold:
  "\<forall>s \<in> set ss. followParents pm (nameOf pd s) 0 \<noteq> None \<Longrightarrow>
   stage2a pd sn pm ss dm =
     Some (fold (\<lambda>s. insort_key fst
                  (the (followParents pm (nameOf pd s) 0), secNameMap_at sn (nameOf pd s)))
             ss dm)"
  by (induction ss arbitrary: dm) (auto simp: multimap_insert_insort)

lemma fold_insort_sort_key:
  "fold (\<lambda>s. insort_key f (e s)) ss [] = sort_key f (rev (map e ss))"
proof -
  have "fold (\<lambda>s. insort_key f (e s)) ss [] = fold (insort_key f) (map e ss) []"
    by (simp add: fold_map comp_def)
  also have "\<dots> = foldr (insort_key f) (rev (map e ss)) []"
    by (simp add: foldr_conv_fold)
  finally show ?thesis by (simp add: sort_key_def)
qed

lemma comesBefore_Nil: "\<not> comesBefore x y []"
  by (simp add: comesBefore_def)

lemma comesBefore_Cons:
  "comesBefore x y (a # xs) = (if a = x then y \<in> set xs else comesBefore x y xs)"
  by (simp add: comesBefore_def)

lemma comesBefore_mem: "comesBefore x y xs \<Longrightarrow> x \<in> set xs \<and> y \<in> set xs"
  by (induction xs) (auto simp: comesBefore_Cons comesBefore_Nil split: if_splits)

lemma comesBefore_antisym:
  "distinct xs \<Longrightarrow> comesBefore x y xs \<Longrightarrow> \<not> comesBefore y x xs"
proof (induction xs)
  case Nil
  then show ?case by (simp add: comesBefore_def)
next
  case (Cons a xs)
  show ?case
  proof (cases "a = x")
    case True
    with Cons.prems have y: "y \<in> set xs" and "x \<notin> set xs" by (auto simp: comesBefore_Cons)
    then have "a \<noteq> y" and "\<not> comesBefore y x xs" using True comesBefore_mem by fastforce+
    then show ?thesis by (simp add: comesBefore_Cons)
  next
    case False
    with Cons.prems have cb: "comesBefore x y xs" by (simp add: comesBefore_Cons)
    then have "y \<in> set xs" using comesBefore_mem by fastforce
    with Cons.prems have "a \<noteq> y" by auto
    with Cons.IH cb Cons.prems show ?thesis by (simp add: comesBefore_Cons)
  qed
qed

lemma sorted_comesBefore:
  "sorted (map fst dm) \<Longrightarrow> (k1, v1) \<in> set dm \<Longrightarrow> (k2, v2) \<in> set dm \<Longrightarrow> k1 < k2 \<Longrightarrow>
   comesBefore v1 v2 (map snd dm)"
proof (induction dm)
  case Nil
  then show ?case by simp
next
  case (Cons e dm)
  obtain k v where e: "e = (k, v)" by (cases e)
  from Cons.prems(1) e have le: "\<forall>x \<in> set dm. k \<le> fst x" and srt: "sorted (map fst dm)"
    by auto
  have in2: "(k2, v2) \<in> set dm"
  proof (rule ccontr)
    assume "(k2, v2) \<notin> set dm"
    with Cons.prems(3) e have "k2 = k" by simp
    moreover from Cons.prems(2) e le have "k \<le> k1" by auto
    ultimately show False using Cons.prems(4) by simp
  qed
  show ?case
  proof (cases "v = v1")
    case True
    with in2 e show ?thesis by (force simp: comesBefore_Cons)
  next
    case False
    with Cons.prems(2) e have "(k1, v1) \<in> set dm" by simp
    from Cons.IH [OF srt this in2 Cons.prems(4)] False e show ?thesis
      by (simp add: comesBefore_Cons)
  qed
qed

lemma major_ini_valid: "validCatalogue major_ini"
  by code_simp

lemma major_ini_order:
  "orderedSections major_ini = Some [''sun'', ''phobos2'', ''mars'', ''earth'', ''moon'']"
  by code_simp

text \<open>
  Claim C1, as stated, fails in its last part: sections of equal depth do not come out in
  source order.  Earth, Mars and Phobos2 all have depth 1 and stand in this order in the
  section list, and the ordered sequence has them the other way round.
\<close>

theorem tie_order_counterexample:
  "validCatalogue major_ini
   \<and> filter (\<lambda>s. sectionLevel major_ini s = Some 1) (childGroups major_ini)
       = [''earth'', ''mars'', ''phobos2'']
   \<and> orderedSections major_ini = Some [''sun'', ''phobos2'', ''mars'', ''earth'', ''moon'']"
proof -
  have "filter (\<lambda>s. sectionLevel major_ini s = Some 1) (childGroups major_ini)
       = [''earth'', ''mars'', ''phobos2'']" by code_simp
  with major_ini_valid major_ini_order show ?thesis by simp
qed

text \<open>
  Claim C1, amended.  For a valid catalogue file (pairwise different, non-empty names in
  simplified form, every chain of declared parents ending) stage 2 ends, and the ordered
  sequence is a rearrangement of the sections, ascending in the depth that the walk up the
  declared parents computes.  A section whose declared parent is the name that stage 3
  gives to the body of another section comes after that section and not before it, so the
  parent is processed first.  The sections of one depth appear in the reverse of their
  order in the section list (the multimap lists the items of one key from the most
  recently inserted one back).
\<close>

theorem catalogue_order:
  assumes valid: "validCatalogue pd"
  shows "\<exists>dm. depLevelMap_of pd = Some dm
      \<and> orderedSections pd = Some (map snd dm)
      \<and> mset (map snd dm) = mset (childGroups pd)
      \<and> sorted (map fst dm)
      \<and> (\<forall>e \<in> set dm. sectionLevel pd (snd e) = Some (fst e))
      \<and> (\<forall>c \<in> set (childGroups pd). \<forall>p \<in> set (childGroups pd).
            parentOf pd c \<noteq> ''none'' \<and> simplified (nameOf pd p) = parentOf pd c \<longrightarrow>
            comesBefore p c (map snd dm) \<and> \<not> comesBefore c p (map snd dm))
      \<and> (\<forall>k. map snd (filter (\<lambda>e. fst e = k) dm) =
               rev (filter (\<lambda>s. sectionLevel pd s = Some k) (childGroups pd)))"
proof -
  let ?ss = "childGroups pd"
  obtain sn pm where st1: "stage1 pd ?ss (Map.empty, Map.empty) = (sn, pm)"
    by (cases "stage1 pd ?ss (Map.empty, Map.empty)")
  have pm: "parentMap_of pd = pm" by (simp add: parentMap_of_def st1)
  from valid have dn: "distinct (map (nameOf pd) ?ss)"
    and ne: "\<And>s. s \<in> set ?ss \<Longrightarrow> nameOf pd s \<noteq> []"
    and simp_name: "\<And>s. s \<in> set ?ss \<Longrightarrow> simplified (nameOf pd s) = nameOf pd s"
    and ends: "\<And>s. s \<in> set ?ss \<Longrightarrow> parentChainEnds pm (length ?ss) (nameOf pd s)"
    by (simp_all add: validCatalogue_def pm)
  from dn have ds: "distinct ?ss" by (rule distinct_map [THEN iffD1, THEN conjunct1])
  have sn_at: "\<And>s. s \<in> set ?ss \<Longrightarrow> secNameMap_at sn (nameOf pd s) = s"
    using stage1_secNameMap [OF dn, of _ Map.empty Map.empty] st1
    by (simp add: secNameMap_at_def)
  have pm_at: "\<And>s. s \<in> set ?ss \<Longrightarrow> parentOf pd s \<noteq> ''none'' \<Longrightarrow> parentOf pd s \<noteq> [] \<Longrightarrow>
      pm (nameOf pd s) = Some (parentOf pd s)"
    using stage1_parentMap [OF dn, of _ Map.empty Map.empty] st1 ne by simp
  define lev where "lev s = chainLength pm (length ?ss) (nameOf pd s)" for s
  have level: "\<And>s. s \<in> set ?ss \<Longrightarrow> sectionLevel pd s = Some (lev s)"
    using followParents_chain [OF ends, of _ 0] by (simp add: sectionLevel_def pm lev_def)
  then have level': "\<And>s. s \<in> set ?ss \<Longrightarrow> followParents pm (nameOf pd s) 0 = Some (lev s)"
    by (simp add: sectionLevel_def pm)
  define dm where "dm = sort_key fst (rev (map (\<lambda>s. (lev s, s)) ?ss))"
  have "stage2a pd sn pm ?ss [] =
      Some (fold (\<lambda>s. insort_key fst
                  (the (followParents pm (nameOf pd s) 0), secNameMap_at sn (nameOf pd s)))
             ?ss [])"
    by (rule stage2a_fold) (simp add: level')
  also have "fold (\<lambda>s. insort_key fst
                  (the (followParents pm (nameOf pd s) 0), secNameMap_at sn (nameOf pd s)))
             ?ss [] = fold (\<lambda>s. insort_key fst (lev s, s)) ?ss []"
    by (rule fold_cong) (simp_all add: level' sn_at)
  finally have dlm: "depLevelMap_of pd = Some dm"
    by (simp add: depLevelMap_of_def st1 fold_insort_sort_key dm_def)
  have os: "orderedSections pd = Some (map snd dm)"
    by (simp add: orderedSections_def dlm)
  have "mset (map snd dm) = image_mset snd (mset dm)" by simp
  also have "mset dm = image_mset (\<lambda>s. (lev s, s)) (mset ?ss)" by (simp add: dm_def)
  finally have perm: "mset (map snd dm) = mset ?ss"
    by (simp add: multiset.map_comp comp_def)
  have srt: "sorted (map fst dm)" by (simp add: dm_def)
  have set_dm: "set dm = (\<lambda>s. (lev s, s)) ` set ?ss" by (simp add: dm_def)
  have entries: "\<forall>e \<in> set dm. sectionLevel pd (snd e) = Some (fst e)"
    using level by (auto simp: set_dm)
  have dist: "distinct (map snd dm)"
    using perm ds by (metis mset_eq_imp_distinct_iff)
  have order: "\<forall>c \<in> set ?ss. \<forall>p \<in> set ?ss.
      parentOf pd c \<noteq> ''none'' \<and> simplified (nameOf pd p) = parentOf pd c \<longrightarrow>
      comesBefore p c (map snd dm) \<and> \<not> comesBefore c p (map snd dm)"
  proof (intro ballI impI)
    fix c p
    assume c: "c \<in> set ?ss" and p: "p \<in> set ?ss"
      and h': "parentOf pd c \<noteq> ''none'' \<and> simplified (nameOf pd p) = parentOf pd c"
    with simp_name [OF p]
    have h: "parentOf pd c \<noteq> ''none'' \<and> nameOf pd p = parentOf pd c" by simp
    from h ne [OF p] have "parentOf pd c \<noteq> []" by auto
    with pm_at [OF c] h have "pm (nameOf pd c) = Some (nameOf pd p)" by simp
    from followParents_child [OF ends [OF c] this] h
    obtain d where "followParents pm (nameOf pd p) 0 = Some d"
      and "followParents pm (nameOf pd c) 0 = Some (Suc d)" by auto
    with level' [OF c] level' [OF p] have "lev p < lev c" by simp
    moreover have "(lev p, p) \<in> set dm" and "(lev c, c) \<in> set dm"
      using c p by (auto simp: set_dm)
    ultimately have "comesBefore p c (map snd dm)"
      using sorted_comesBefore [OF srt] by blast
    with comesBefore_antisym [OF dist]
    show "comesBefore p c (map snd dm) \<and> \<not> comesBefore c p (map snd dm)" by blast
  qed
  have ties: "\<forall>k. map snd (filter (\<lambda>e. fst e = k) dm) =
               rev (filter (\<lambda>s. sectionLevel pd s = Some k) ?ss)"
  proof
    fix k
    have "filter (\<lambda>e. fst e = k) dm = filter (\<lambda>e. fst e = k) (rev (map (\<lambda>s. (lev s, s)) ?ss))"
      unfolding dm_def by (rule sort_key_stable)
    then have "map snd (filter (\<lambda>e. fst e = k) dm) = rev (filter (\<lambda>s. lev s = k) ?ss)"
      by (simp add: filter_map comp_def rev_map flip: rev_filter)
    also have "filter (\<lambda>s. lev s = k) ?ss = filter (\<lambda>s. sectionLevel pd s = Some k) ?ss"
      by (rule filter_cong) (simp_all add: level)
    finally show "map snd (filter (\<lambda>e. fst e = k) dm) =
               rev (filter (\<lambda>s. sectionLevel pd s = Some k) ?ss)" .
  qed
  from dlm os perm srt entries order ties show ?thesis by blast
qed

theorem catalogue_order_witness:
  "validCatalogue major_ini
   \<and> parentOf major_ini ''moon'' \<noteq> ''none''
   \<and> simplified (nameOf major_ini ''earth'') = parentOf major_ini ''moon''
   \<and> (\<exists>dm :: (nat \<times> string) list. orderedSections major_ini = Some (map snd dm)
         \<and> mset (map snd dm) = mset (childGroups major_ini)
         \<and> sorted (map fst dm)
         \<and> comesBefore ''earth'' ''moon'' (map snd dm)
         \<and> \<not> comesBefore ''moon'' ''earth'' (map snd dm))"
proof -
  have h: "parentOf major_ini ''moon'' \<noteq> ''none''"
    "simplified (nameOf major_ini ''earth'') = parentOf major_ini ''moon''"
    "''moon'' \<in> set (childGroups major_ini)" "''earth'' \<in> set (childGroups major_ini)"
    by code_simp+
  from catalogue_order [OF major_ini_valid] obtain dm :: "(nat \<times> string) list" where
    "orderedSections major_ini = Some (map snd dm)"
    "mset (map snd dm) = mset (childGroups major_ini)"
    "sorted (map fst dm)"
    "\<forall>c \<in> set (childGroups major_ini). \<forall>p \<in> set (childGroups major_ini).
            parentOf major_ini c \<noteq> ''none''
              \<and> simplified (nameOf major_ini p) = parentOf major_ini c \<longrightarrow>
            comesBefore p c (map snd dm) \<and> \<not> comesBefore c p (map snd dm)"
    by blast
  with h major_ini_valid show ?thesis by blast
qed

text \<open>
  Validity asks for names in simplified form because stage 2 walks the parent chain with
  the names as written, while stage 3 knows a body by its simplified name.  A record named
  \<open>Big  Rock\<close>, with two blanks, is found in stage 3 as the parent \<open>Big Rock\<close> of another
  record, which stage 2 has put in front of it.
\<close>

lemma spaces_ini_order:
  "orderedSections spaces_ini = Some [''sun'', ''b'', ''a'']
   \<and> simplified (nameOf spaces_ini ''a'') = parentOf spaces_ini ''b''
   \<and> \<not> validCatalogue spaces_ini"
  by code_simp

section \<open>One record of a catalogue file\<close>

lemma ell_orbit_cases:
  "ell_orbit dbg pd s pp st = Returns (Inl NoOrbitSize) \<or> ell_orbit dbg pd s pp st = AssertFails
   \<or> ell_orbit dbg pd s pp st = NullDeref \<or> ell_orbit dbg pd s pp st = Returns (Inr (newOrbit st))"
  by (simp add: ell_orbit_def Let_def split: option.splits)

lemma comet_orbit_cases:
  "comet_orbit dbg pd s pp st = Returns (Inl NoOrbitSize) \<or> comet_orbit dbg pd s pp st = AssertFails
   \<or> comet_orbit dbg pd s pp st = NullDeref
   \<or> comet_orbit dbg pd s pp st = Returns (Inl NoPericenterTime)
   \<or> comet_orbit dbg pd s pp st = Returns (Inr (newOrbit st))"
  by (simp add: comet_orbit_def Let_def split: option.splits)

lemma resolveCoordFunc_unknown:
  "coordFuncOf pd s \<notin> set recognized_coord_funcs \<Longrightarrow>
   resolveCoordFunc dbg pd s pp st = Returns (Inr (None, None, st))"
  by (simp add: resolveCoordFunc_def recognized_coord_funcs_def)

lemma resolveCoordFunc_known:
  assumes "coordFuncOf pd s \<in> set recognized_coord_funcs"
  shows "resolveCoordFunc dbg pd s pp st = AssertFails \<or> resolveCoordFunc dbg pd s pp st = NullDeref
     \<or> (\<exists>r. resolveCoordFunc dbg pd s pp st = Returns (Inl r))
     \<or> (\<exists>pf orb st1. resolveCoordFunc dbg pd s pp st = Returns (Inr (Some pf, orb, st1))
          \<and> systemPlanets st1 = systemPlanets st \<and> obj st1 = obj st \<and> nextAddr st \<le> nextAddr st1)"
proof -
  consider (ell) "coordFuncOf pd s = ''ell_orbit''"
    | (comet) "coordFuncOf pd s \<noteq> ''ell_orbit''" "coordFuncOf pd s = ''comet_orbit''"
    | (special) "coordFuncOf pd s \<noteq> ''ell_orbit''" "coordFuncOf pd s \<noteq> ''comet_orbit''"
        "coordFuncOf pd s \<in> set special_coord_funcs"
    using assms unfolding recognized_coord_funcs_def by auto
  then show ?thesis
  proof cases
    case ell
    with ell_orbit_cases [of dbg pd s pp st] show ?thesis
      by (auto simp: resolveCoordFunc_def newOrbit_def)
  next
    case comet
    with comet_orbit_cases [of dbg pd s pp st] show ?thesis
      by (auto simp: resolveCoordFunc_def newOrbit_def)
  next
    case special
    then show ?thesis by (simp add: resolveCoordFunc_def)
  qed
qed

lemma processSection_no_parent:
  assumes "parentOf pd s \<noteq> ''none''" and "parentOf pd s \<notin> set (listAllObjects pc True st)"
  shows "processSection pc dbg pd s st = Returns (Inl NoParent)"
proof -
  from assms(2) have "find (\<lambda>p. getEnglishName st p = parentOf pd s) (systemPlanets st) = None"
    by (force simp: find_None_iff listAllObjects_def)
  with assms(1) show ?thesis by (simp add: processSection_def Let_def)
qed

text \<open>
  Claim C8, as stated, fails: a record with an unrecognized \<open>coord_func\<close> whose parent does
  not exist never reaches the fatal branch; it is skipped for its parent.
\<close>

theorem unknown_coord_func_skipped_counterexample:
  "coordFuncOf bogus_ini ''phobos2'' \<notin> set recognized_coord_funcs
   \<and> processSection demo_class False bogus_ini ''phobos2'' demo_system = Returns (Inl NoParent)"
proof -
  have "coordFuncOf bogus_ini ''phobos2'' \<notin> set recognized_coord_funcs" by code_simp
  moreover have p: "parentOf bogus_ini ''phobos2'' = ''Mars2''" by code_simp
  then have "parentOf bogus_ini ''phobos2'' \<noteq> ''none''"
    and "parentOf bogus_ini ''phobos2'' \<notin> set (listAllObjects demo_class True demo_system)"
    by (simp_all add: demo_listing)
  then have "processSection demo_class False bogus_ini ''phobos2'' demo_system
      = Returns (Inl NoParent)" by (rule processSection_no_parent)
  ultimately show ?thesis by simp
qed

text \<open>
  Claim C8, amended.  Processing a record ends in \<open>exit(-1)\<close> exactly when the record
  passes the parent lookup (its parent is \<open>none\<close> or names a body already constructed) and
  its \<open>coord_func\<close> is none of the recognized identifiers.  So a recognized identifier never
  reaches the fatal branch, and an unrecognized one reaches it unless the record was
  skipped for its parent before.
\<close>

theorem fatal_coord_func:
  "processSection pc dbg pd s st = Exits
   \<longleftrightarrow> parentResolves pd s st \<and> coordFuncOf pd s \<notin> set recognized_coord_funcs"
proof (cases "coordFuncOf pd s \<in> set recognized_coord_funcs")
  case True
  let ?pp = "if parentOf pd s \<noteq> ''none''
             then find (\<lambda>p. getEnglishName st p = parentOf pd s) (systemPlanets st) else None"
  from resolveCoordFunc_known [OF True, of dbg ?pp st]
  have "processSection pc dbg pd s st \<noteq> Exits"
    by (auto simp: processSection_def Let_def)
  with True show ?thesis by simp
next
  case False
  then show ?thesis
    by (auto simp: processSection_def Let_def resolveCoordFunc_unknown parentResolves_def
        searchByEnglishName_def)
qed

theorem fatal_coord_func_witness:
  "parentResolves bogus_ini ''vulcan'' demo_system
   \<and> coordFuncOf bogus_ini ''vulcan'' \<notin> set recognized_coord_funcs
   \<and> processSection demo_class False bogus_ini ''vulcan'' demo_system = Exits
   \<and> coordFuncOf major_ini ''moon'' \<in> set recognized_coord_funcs
   \<and> processSection demo_class False major_ini ''moon'' demo_system \<noteq> Exits"
proof -
  have a: "parentResolves bogus_ini ''vulcan'' demo_system" by code_simp
  have b: "coordFuncOf bogus_ini ''vulcan'' \<notin> set recognized_coord_funcs" by code_simp
  have c: "coordFuncOf major_ini ''moon'' \<in> set recognized_coord_funcs" by code_simp
  from fatal_coord_func [of demo_class False bogus_ini "''vulcan''" demo_system]
    fatal_coord_func [of demo_class False major_ini "''moon''" demo_system] a b c
  show ?thesis by simp
qed

section \<open>Records whose parent does not exist\<close>

lemma createBody_systemPlanets:
  "systemPlanets (createBody pc pd s n pp pf orb st) = systemPlanets st @ [nextAddr st]"
  by (simp add: createBody_def Let_def split: option.splits)

lemma createBody_nextAddr:
  "nextAddr (createBody pc pd s n pp pf orb st) = Suc (nextAddr st)"
  by (simp add: createBody_def Let_def split: option.splits)

lemma createBody_names:
  "englishName (obj (createBody pc pd s n pp pf orb st) a) =
     (if a = nextAddr st then n else englishName (obj st a))"
  by (simp add: createBody_def Let_def split: option.splits)

lemma processSection_built:
  assumes "allocated st" and "processSection pc dbg pd s st = Returns (Inr st')"
  shows "allocated st' \<and>
         listAllObjects pc True st' = listAllObjects pc True st @ [simplified (nameOf pd s)]"
proof -
  let ?pp = "if parentOf pd s \<noteq> ''none''
             then find (\<lambda>p. getEnglishName st p = parentOf pd s) (systemPlanets st) else None"
  from assms(2) obtain pf orb st1 where
    r: "resolveCoordFunc dbg pd s ?pp st = Returns (Inr (Some pf, orb, st1))"
    and st': "st' = createBody pc pd s (simplified (nameOf pd s)) ?pp pf orb st1"
    by (auto simp: processSection_def Let_def split: if_splits outcome.splits sum.splits
        option.splits)
  have "coordFuncOf pd s \<in> set recognized_coord_funcs"
    using r resolveCoordFunc_unknown [of pd s dbg ?pp st] by auto
  from resolveCoordFunc_known [OF this, of dbg ?pp st] r
  have same: "systemPlanets st1 = systemPlanets st" "obj st1 = obj st"
    "nextAddr st \<le> nextAddr st1" by auto
  from assms(1) same have fresh: "\<forall>a \<in> set (systemPlanets st). a < nextAddr st1"
    by (auto simp: allocated_def)
  then have "map (getEnglishName st') (systemPlanets st) =
             map (getEnglishName st) (systemPlanets st)"
    by (auto simp: st' getEnglishName_def createBody_names same)
  then have "listAllObjects pc True st' =
             listAllObjects pc True st @ [simplified (nameOf pd s)]"
    by (simp add: listAllObjects_def st' createBody_systemPlanets same)
       (simp add: getEnglishName_def createBody_names)
  moreover have "allocated st'"
    using fresh by (auto simp: allocated_def st' createBody_systemPlanets createBody_nextAddr same)
  ultimately show ?thesis by simp
qed

lemma stage3_append:
  "stage3 pc dbg pd (xs @ ys) st =
     (case stage3 pc dbg pd xs st of
        Returns st1 \<Rightarrow> stage3 pc dbg pd ys st1
      | Exits \<Rightarrow> Exits
      | AssertFails \<Rightarrow> AssertFails
      | NullDeref \<Rightarrow> NullDeref
      | Diverges \<Rightarrow> Diverges)"
  by (induction xs arbitrary: st) (auto split: outcome.splits sum.splits)

lemma stage3_names:
  "allocated st \<Longrightarrow> stage3 pc dbg pd ordered st = Returns st' \<Longrightarrow>
   set (listAllObjects pc True st') \<subseteq>
     set (listAllObjects pc True st) \<union> (\<lambda>s'. simplified (nameOf pd s')) ` set ordered"
proof (induction ordered arbitrary: st)
  case Nil
  then show ?case by simp
next
  case (Cons a ordered)
  show ?case
  proof (cases "processSection pc dbg pd a st")
    case (Returns r)
    show ?thesis
    proof (cases r)
      case (Inl reason)
      with Returns Cons.prems have "stage3 pc dbg pd ordered st = Returns st'" by simp
      from Cons.IH [OF Cons.prems(1) this] show ?thesis by auto
    next
      case (Inr st1)
      with Returns Cons.prems have run: "stage3 pc dbg pd ordered st1 = Returns st'" by simp
      from Returns Inr processSection_built [OF Cons.prems(1)]
      have "allocated st1" and
        "listAllObjects pc True st1 = listAllObjects pc True st @ [simplified (nameOf pd a)]"
        by auto
      with Cons.IH [OF _ run] show ?thesis by auto
    qed
  qed (use Cons.prems in simp_all)
qed

lemma phobos2_only_facts:
  "status_ok phobos2_only_ini" "orderedSections phobos2_only_ini = Some [''phobos2'']"
  "parentOf phobos2_only_ini ''phobos2'' = ''Mars2''"
  "listAllObjects demo_class True empty_system = []" "systemPlanets empty_system = []"
  by code_simp+

text \<open>
  Claim C7, as stated, fails where it says that the load succeeds.  A file whose only
  record has a parent that does not exist is loaded into an empty catalogue: the record is
  skipped, nothing is in the catalogue in the end, and the load returns \<open>false\<close>.
\<close>

theorem unresolved_parent_load_fails_counterexample:
  "status_ok phobos2_only_ini
   \<and> orderedSections phobos2_only_ini = Some [''phobos2'']
   \<and> parentOf phobos2_only_ini ''phobos2'' = ''Mars2''
   \<and> ''Mars2'' \<notin> set (listAllObjects demo_class True empty_system)
   \<and> loadPlanetsFile demo_class False phobos2_only_ini empty_system
       = Returns (False, empty_system)"
proof -
  have "parentOf phobos2_only_ini ''phobos2'' \<noteq> ''none''"
    and n: "parentOf phobos2_only_ini ''phobos2''
             \<notin> set (listAllObjects demo_class True empty_system)"
    by (simp_all add: phobos2_only_facts)
  then have "processSection demo_class False phobos2_only_ini ''phobos2'' empty_system
      = Returns (Inl NoParent)" by (rule processSection_no_parent)
  then have "loadPlanetsFile demo_class False phobos2_only_ini empty_system
       = Returns (False, empty_system)"
    by (simp add: loadPlanetsFile_def phobos2_only_facts)
  with n show ?thesis by (simp add: phobos2_only_facts)
qed

text \<open>
  Claim C7, amended.  Let the file parse and stage 2 end, and take a record whose declared
  parent is not \<open>none\<close> and is the name of no body in the catalogue when the record's turn
  comes in stage 3, that is, after the records ordered before it have been processed.
  Then the record is skipped with the diagnostic for a missing parent, the catalogue stays
  as it is, and the loop goes on with the records after it: the file loads exactly as its
  other records load.  The load reports success exactly when the catalogue is not empty
  in the end, so a file whose records are all skipped, loaded into an empty catalogue,
  reports failure.  The name of the skipped body is in no listing afterwards, provided no
  body present before and no other record of the file carries it.  (\<open>allocated\<close> says that
  \<open>new\<close> hands out addresses that are not in use.)
\<close>

theorem unresolved_parent_skipped:
  assumes "allocated st" and "status_ok pd"
    and "orderedSections pd = Some (before @ s # after)"
    and "stage3 pc dbg pd before st = Returns st1"
    and "parentOf pd s \<noteq> ''none''"
    and "parentOf pd s \<notin> set (listAllObjects pc True st1)"
  shows "processSection pc dbg pd s st1 = Returns (Inl NoParent)
     \<and> stage3 pc dbg pd (before @ s # after) st = stage3 pc dbg pd after st1
     \<and> loadPlanetsFile pc dbg pd st =
         map_outcome (\<lambda>st'. (systemPlanets st' \<noteq> [], st'))
           (stage3 pc dbg pd (before @ after) st)
     \<and> (\<forall>ok st'. loadPlanetsFile pc dbg pd st = Returns (ok, st') \<longrightarrow>
          ok = (systemPlanets st' \<noteq> [])
          \<and> (simplified (nameOf pd s) \<notin> set (listAllObjects pc True st)
               \<and> simplified (nameOf pd s)
                    \<notin> (\<lambda>s'. simplified (nameOf pd s')) ` set (before @ after) \<longrightarrow>
             simplified (nameOf pd s) \<notin> set (listAllObjects pc True st')))"
proof -
  have skip: "processSection pc dbg pd s st1 = Returns (Inl NoParent)"
    using assms(5,6) by (rule processSection_no_parent)
  have with_s: "stage3 pc dbg pd (before @ s # after) st = stage3 pc dbg pd after st1"
    using assms(4) skip by (simp add: stage3_append)
  have without_s: "stage3 pc dbg pd (before @ after) st = stage3 pc dbg pd after st1"
    using assms(4) by (simp add: stage3_append)
  have load: "loadPlanetsFile pc dbg pd st =
         map_outcome (\<lambda>st'. (systemPlanets st' \<noteq> [], st'))
           (stage3 pc dbg pd (before @ after) st)"
    using assms(2,3) with_s without_s by (simp add: loadPlanetsFile_def)
  have listed: "ok = (systemPlanets st' \<noteq> [])
          \<and> (simplified (nameOf pd s) \<notin> set (listAllObjects pc True st)
               \<and> simplified (nameOf pd s)
                    \<notin> (\<lambda>s'. simplified (nameOf pd s')) ` set (before @ after) \<longrightarrow>
             simplified (nameOf pd s) \<notin> set (listAllObjects pc True st'))"
    if r: "loadPlanetsFile pc dbg pd st = Returns (ok, st')" for ok st'
  proof -
    from r load have run: "stage3 pc dbg pd (before @ after) st = Returns st'"
      and ok: "ok = (systemPlanets st' \<noteq> [])"
      by (cases "stage3 pc dbg pd (before @ after) st"; simp; fail)+
    from stage3_names [OF assms(1) run] ok show ?thesis by blast
  qed
  from skip with_s load listed show ?thesis by blast
qed

lemma major_ini_loads:
  "map_outcome (\<lambda>(ok, st). (ok, listAllObjects demo_class True st))
     (loadPlanetsFile demo_class False major_ini empty_system)
   = Returns (True, [''Sun'', ''Mars'', ''Earth'', ''Moon''])"
  by code_simp

lemma major_ini_sun_first:
  "map_outcome (listAllObjects demo_class True)
     (stage3 demo_class False major_ini [''sun''] empty_system) = Returns [''Sun'']"
  by code_simp

theorem unresolved_parent_skipped_witness:
  "allocated empty_system \<and> status_ok major_ini
   \<and> orderedSections major_ini = Some ([''sun''] @ ''phobos2'' # [''mars'', ''earth'', ''moon''])
   \<and> map_outcome (listAllObjects demo_class True)
        (stage3 demo_class False major_ini [''sun''] empty_system) = Returns [''Sun'']
   \<and> parentOf major_ini ''phobos2'' = ''Mars2''
   \<and> (\<exists>st'. loadPlanetsFile demo_class False major_ini empty_system = Returns (True, st')
         \<and> listAllObjects demo_class True st' = [''Sun'', ''Mars'', ''Earth'', ''Moon'']
         \<and> ''Phobos2'' \<notin> set (listAllObjects demo_class True st'))"
proof -
  let ?after = "[''mars'', ''earth'', ''moon'']"
  have h1: "allocated empty_system" and h2: "status_ok major_ini" by code_simp+
  have h3: "orderedSections major_ini = Some ([''sun''] @ ''phobos2'' # ?after)"
    by (simp add: major_ini_order)
  from major_ini_sun_first obtain st1 where
    h4: "stage3 demo_class False major_ini [''sun''] empty_system = Returns st1"
    and l1: "listAllObjects demo_class True st1 = [''Sun'']"
    by (cases "stage3 demo_class False major_ini [''sun''] empty_system") auto
  have p: "parentOf major_ini ''phobos2'' = ''Mars2''" by code_simp
  have h5: "parentOf major_ini ''phobos2'' \<noteq> ''none''" by (simp add: p)
  have h6: "parentOf major_ini ''phobos2'' \<notin> set (listAllObjects demo_class True st1)"
    by (simp add: p l1)
  have e: "listAllObjects demo_class True empty_system = []" by code_simp
  have n: "simplified (nameOf major_ini ''phobos2'') = ''Phobos2''" by code_simp
  have o: "''Phobos2'' \<notin> (\<lambda>s'. simplified (nameOf major_ini s')) ` set ([''sun''] @ ?after)"
    by code_simp
  note t = unresolved_parent_skipped [OF h1 h2 h3 h4 h5 h6]
  from major_ini_loads obtain st' where
    r: "loadPlanetsFile demo_class False major_ini empty_system = Returns (True, st')"
    and l: "listAllObjects demo_class True st' = [''Sun'', ''Mars'', ''Earth'', ''Moon'']"
    by (cases "loadPlanetsFile demo_class False major_ini empty_system") auto
  have n': "simplified (nameOf major_ini ''phobos2'')
      \<notin> set (listAllObjects demo_class True empty_system)" by (simp add: e)
  have o': "simplified (nameOf major_ini ''phobos2'')
      \<notin> (\<lambda>s'. simplified (nameOf major_ini s')) ` set ([''sun''] @ ?after)"
    unfolding n by (rule o)
  from t r n' o'
  have "simplified (nameOf major_ini ''phobos2'') \<notin> set (listAllObjects demo_class True st')"
    by blast
  then have g: "''Phobos2'' \<notin> set (listAllObjects demo_class True st')" by (simp add: n)
  from r l g have "\<exists>st'. loadPlanetsFile demo_class False major_ini empty_system
         = Returns (True, st')
         \<and> listAllObjects demo_class True st' = [''Sun'', ''Mars'', ''Earth'', ''Moon'']
         \<and> ''Phobos2'' \<notin> set (listAllObjects demo_class True st')" by blast
  with h1 h2 h3 major_ini_sun_first p show ?thesis by simp
qed

section \<open>A minor-bodies file that does not load\<close>

lemma removeMinorBodies_empties: "systemPlanets (removeMinorBodies pc st) = []"
  by (simp add: removeMinorBodies_def)

lemma failed_minor_file:
  "\<not> status_ok pd \<Longrightarrow>
   loadMinorFiles pc dbg (pd # rest) st = loadMinorFiles pc dbg rest (removeMinorBodies pc st)"
  by (simp add: loadPlanetsFile_def)

text \<open>
  Claim C4 does not hold of the code.  The major-bodies file loads Sun, Mars, Earth and
  Moon; the minor-bodies file does not parse, so it has introduced no body; and after
  \<open>loadPlanets()\<close> the catalogue is empty and Earth is not found any more.
\<close>

theorem failed_minor_load_empties_catalogue:
  "map_outcome (\<lambda>(ok, st). (ok, listAllObjects demo_class True st))
     (loadPlanetsFile demo_class False major_ini (empty_system\<lparr>minorBodies := []\<rparr>))
   = Returns (True, [''Sun'', ''Mars'', ''Earth'', ''Moon''])
   \<and> map_outcome (\<lambda>st. (listAllObjects demo_class True st, searchByEnglishName st ''Earth''))
       (loadPlanets demo_class False (Some major_ini) [broken_ini] empty_system)
     = Returns ([], None)"
  by code_simp

section \<open>The loader establishes the links that the position engine relies on\<close>

text \<open>
  Every body that a catalogue file adds has a parent that is catalogued and was allocated
  before it, so a catalogue loaded into an empty one satisfies \<open>allocated\<close> and
  \<open>linksWellFormed\<close>.
\<close>

lemma createBody_parent:
  "parent (obj (createBody pc pd s n pp pf orb st) a) =
     (if a = nextAddr st then pp else parent (obj st a))"
  by (simp add: createBody_def Let_def split: option.splits)

lemma processSection_links:
  assumes al: "allocated st" and wf: "linksWellFormed st"
    and run: "processSection pc dbg pd s st = Returns (Inr st')"
  shows "linksWellFormed st'"
proof -
  let ?pp = "if parentOf pd s \<noteq> ''none''
             then find (\<lambda>p. getEnglishName st p = parentOf pd s) (systemPlanets st) else None"
  from run obtain pf orb st1 where
    r: "resolveCoordFunc dbg pd s ?pp st = Returns (Inr (Some pf, orb, st1))"
    and st': "st' = createBody pc pd s (simplified (nameOf pd s)) ?pp pf orb st1"
    by (auto simp: processSection_def Let_def split: if_splits outcome.splits sum.splits
        option.splits)
  have "coordFuncOf pd s \<in> set recognized_coord_funcs"
    using r resolveCoordFunc_unknown [of pd s dbg ?pp st] by auto
  from resolveCoordFunc_known [OF this, of dbg ?pp st] r
  have same: "systemPlanets st1 = systemPlanets st" "obj st1 = obj st"
    "nextAddr st \<le> nextAddr st1" by auto
  from al same have fresh: "\<forall>a \<in> set (systemPlanets st). a < nextAddr st1"
    by (auto simp: allocated_def)
  have new: "case ?pp of None \<Rightarrow> True
             | Some q \<Rightarrow> q < nextAddr st1 \<and> q \<in> set (systemPlanets st)"
    using fresh by (auto split: option.splits dest: find_Some_mem)
  have old: "case parent (obj st a) of None \<Rightarrow> True
             | Some q \<Rightarrow> q < a \<and> q \<in> set (systemPlanets st)"
    if "a \<in> set (systemPlanets st)" for a
    using wf that by (simp add: linksWellFormed_def)
  show ?thesis
    unfolding linksWellFormed_def st' createBody_systemPlanets same
  proof
    fix a
    assume "a \<in> set (systemPlanets st @ [nextAddr st1])"
    then consider "a = nextAddr st1" | "a \<in> set (systemPlanets st)" "a \<noteq> nextAddr st1"
      using fresh by auto
    then show "case parent (obj (createBody pc pd s (simplified (nameOf pd s)) ?pp pf orb st1) a)
               of None \<Rightarrow> True
               | Some q \<Rightarrow> q < a \<and> q \<in> set (systemPlanets st @ [nextAddr st1])"
    proof cases
      case 1
      with new show ?thesis by (auto simp: createBody_parent split: option.splits)
    next
      case 2
      with old [of a] show ?thesis
        by (auto simp: createBody_parent same split: option.splits)
    qed
  qed
qed

lemma stage3_links:
  "allocated st \<Longrightarrow> linksWellFormed st \<Longrightarrow> stage3 pc dbg pd ordered st = Returns st' \<Longrightarrow>
   allocated st' \<and> linksWellFormed st'"
proof (induction ordered arbitrary: st)
  case Nil
  then show ?case by simp
next
  case (Cons a ordered)
  show ?case
  proof (cases "processSection pc dbg pd a st")
    case (Returns r)
    show ?thesis
    proof (cases r)
      case (Inl reason)
      with Returns Cons show ?thesis by simp
    next
      case (Inr st1)
      with Returns Cons.prems have run: "stage3 pc dbg pd ordered st1 = Returns st'" by simp
      from Returns Inr processSection_built [OF Cons.prems(1)]
        processSection_links [OF Cons.prems(1,2)]
      have "allocated st1" and "linksWellFormed st1" by auto
      from Cons.IH [OF this run] show ?thesis .
    qed
  qed (use Cons.prems in simp_all)
qed

lemma loadPlanetsFile_links:
  assumes "allocated st" and "linksWellFormed st"
    and "loadPlanetsFile pc dbg pd st = Returns (ok, st')"
  shows "allocated st' \<and> linksWellFormed st'"
proof (cases "status_ok pd")
  case False
  with assms show ?thesis by (simp add: loadPlanetsFile_def)
next
  case True
  with assms(3) obtain ordered where
    m: "map_outcome (\<lambda>st'. (systemPlanets st' \<noteq> [], st')) (stage3 pc dbg pd ordered st)
        = Returns (ok, st')"
    by (auto simp: loadPlanetsFile_def split: option.splits)
  then have "stage3 pc dbg pd ordered st = Returns st'"
    by (cases "stage3 pc dbg pd ordered st") simp_all
  from stage3_links [OF assms(1,2) this] show ?thesis .
qed

section \<open>Positions\<close>

lemma composeChain_agree:
  assumes "\<forall>a \<in> S. case par a of None \<Rightarrow> True | Some q \<Rightarrow> q < a \<and> q \<in> S"
  shows "p \<in> S \<Longrightarrow> \<forall>a \<in> S. a < p \<longrightarrow> pos1 a = pos2 a \<Longrightarrow>
    \<exists>h. composeChain par add pos1 acc p = Some h \<and> composeChain par add pos2 acc p = Some h"
proof (induction p arbitrary: acc rule: less_induct)
  case (less p)
  show ?case
  proof (cases "par p")
    case None
    then show ?thesis by (simp add: composeChain.simps)
  next
    case (Some q)
    with assms less.prems(1) have q: "q < p" "q \<in> S" by force+
    with less.prems(2) have e: "pos1 q = pos2 q" by simp
    from less.prems(2) q have "\<forall>a \<in> S. a < q \<longrightarrow> pos1 a = pos2 a" by auto
    from less.IH [OF q this, of "add acc (pos1 q)"] Some e show ?thesis
      by (subst (1 2) composeChain.simps) simp
  qed
qed

lemma composeChain_cong:
  assumes "\<forall>a \<in> S. case par a of None \<Rightarrow> True | Some q \<Rightarrow> q < a \<and> q \<in> S"
    and "p \<in> S" and "\<forall>a \<in> S. a < p \<longrightarrow> pos1 a = pos2 a"
  shows "composeChain par add pos1 acc p = composeChain par add pos2 acc p"
  using composeChain_agree [OF assms, of add acc] by auto


lemma fold_withoutOrbits_eclipticPos:
  "eclipticPos (fold (\<lambda>p. Planet_computePositionWithoutOrbits positionAt p T) xs ps) a =
     (if a \<in> set xs then positionAt a T else eclipticPos ps a)"
  by (induction xs arbitrary: ps rule: rev_induct)
     (auto simp: Planet_computePositionWithoutOrbits_def)

lemma euclid_x: "euclid (x, 0, 0) = \<bar>x\<bar>"
  by (simp add: euclid_def)

lemma demo_links:
  "parent (obj demo_system 0) = None" "parent (obj demo_system (Suc 0)) = Some 0"
  "parent (obj demo_system 2) = Some 0" "parent (obj demo_system 3) = Some 2"
  "parent (obj demo_system 5) = Some 0" "systemPlanets demo_system = [0, 1, 2, 3, 5]"
  by (simp_all add: demo_system_def)








lemma fold_withoutOrbits_lightTime:
  "lightTimeSunPosition (fold (\<lambda>p. Planet_computePositionWithoutOrbits positionAt p T) xs ps) =
     lightTimeSunPosition ps"
  by (induction xs arbitrary: ps) (auto simp: Planet_computePositionWithoutOrbits_def)

lemma lightTimePass_spec:
  assumes links: "\<forall>a \<in> S. case parent (obj st a) of None \<Rightarrow> True | Some q \<Rightarrow> q < a \<and> q \<in> S"
  shows "distinct rest \<Longrightarrow> set rest \<subseteq> S \<Longrightarrow>
    \<exists>ps'. lightTimePass ar positionAt st T obsPos rest ps = Some ps'
      \<and> lightTimeSunPosition ps' = lightTimeSunPosition ps
      \<and> (\<forall>b. b \<notin> set rest \<longrightarrow> eclipticPos ps' b = eclipticPos ps b)
      \<and> (\<forall>xs p ys. rest = xs @ p # ys \<longrightarrow>
           (\<exists>h. composeChain (\<lambda>a. parent (obj st a)) (vadd ar)
                   (\<lambda>b. if b \<in> set xs then eclipticPos ps' b else eclipticPos ps b)
                   (eclipticPos ps p) p = Some h
               \<and> eclipticPos ps' p = positionAt p (tsub ar T (lightDelay ar h obsPos))))"
proof (induction rest arbitrary: ps)
  case Nil
  then show ?case by simp
next
  case (Cons p0 rest)
  let ?par = "\<lambda>a. parent (obj st a)"
  from Cons.prems have p0: "p0 \<in> S" "p0 \<notin> set rest" and d: "distinct rest" and sub: "set rest \<subseteq> S"
    by auto
  from composeChain_agree [OF links p0(1), of "eclipticPos ps" "eclipticPos ps" "vadd ar" "eclipticPos ps p0"]
  obtain h0 where h0: "getHeliocentricEclipticPos ar st ps p0 = Some h0"
    by (auto simp: getHeliocentricEclipticPos_def)
  define ps1 where "ps1 = Planet_computePosition positionAt p0 (tsub ar T (lightDelay ar h0 obsPos)) ps"
  have ps1: "eclipticPos ps1 = (eclipticPos ps)(p0 := positionAt p0 (tsub ar T (lightDelay ar h0 obsPos)))"
    "lightTimeSunPosition ps1 = lightTimeSunPosition ps"
    by (simp_all add: ps1_def Planet_computePosition_def)
  from Cons.IH [OF d sub, of ps1] obtain ps' where
    run: "lightTimePass ar positionAt st T obsPos rest ps1 = Some ps'"
    and lt: "lightTimeSunPosition ps' = lightTimeSunPosition ps1"
    and keep: "\<forall>b. b \<notin> set rest \<longrightarrow> eclipticPos ps' b = eclipticPos ps1 b"
    and each: "\<forall>xs p ys. rest = xs @ p # ys \<longrightarrow>
           (\<exists>h. composeChain ?par (vadd ar)
                   (\<lambda>b. if b \<in> set xs then eclipticPos ps' b else eclipticPos ps1 b)
                   (eclipticPos ps1 p) p = Some h
               \<and> eclipticPos ps' p = positionAt p (tsub ar T (lightDelay ar h obsPos)))"
    by blast
  have run': "lightTimePass ar positionAt st T obsPos (p0 # rest) ps = Some ps'"
    using h0 run by (simp add: ps1_def lightDelay_def Let_def)
  have final0: "eclipticPos ps' p0 = positionAt p0 (tsub ar T (lightDelay ar h0 obsPos))"
    using keep p0(2) by (simp add: ps1)
  have keep': "\<forall>b. b \<notin> set (p0 # rest) \<longrightarrow> eclipticPos ps' b = eclipticPos ps b"
    using keep by (simp add: ps1)
  have each': "\<exists>h. composeChain ?par (vadd ar)
                   (\<lambda>b. if b \<in> set xs then eclipticPos ps' b else eclipticPos ps b)
                   (eclipticPos ps p) p = Some h
               \<and> eclipticPos ps' p = positionAt p (tsub ar T (lightDelay ar h obsPos))"
    if dec: "p0 # rest = xs @ p # ys" for xs p ys
  proof (cases xs)
    case Nil
    with dec have "p = p0" by simp
    moreover have "(\<lambda>b. if b \<in> set xs then eclipticPos ps' b else eclipticPos ps b) = eclipticPos ps"
      using Nil by simp
    ultimately show ?thesis using h0 final0 by (simp add: getHeliocentricEclipticPos_def)
  next
    case (Cons x xs')
    with dec have x: "x = p0" and r: "rest = xs' @ p # ys" by simp_all
    from r p0(2) have ne: "p \<noteq> p0" by auto
    from each r obtain h where
      h: "composeChain ?par (vadd ar)
                   (\<lambda>b. if b \<in> set xs' then eclipticPos ps' b else eclipticPos ps1 b)
                   (eclipticPos ps1 p) p = Some h"
      and f: "eclipticPos ps' p = positionAt p (tsub ar T (lightDelay ar h obsPos))" by blast
    have "(\<lambda>b. if b \<in> set xs' then eclipticPos ps' b else eclipticPos ps1 b)
        = (\<lambda>b. if b \<in> set xs then eclipticPos ps' b else eclipticPos ps b)"
      using final0 by (auto simp: fun_eq_iff Cons x ps1)
    with h ne have "composeChain ?par (vadd ar)
                   (\<lambda>b. if b \<in> set xs then eclipticPos ps' b else eclipticPos ps b)
                   (eclipticPos ps p) p = Some h" by (simp add: ps1)
    with f show ?thesis by blast
  qed
  from run' lt keep' each' show ?case by (simp add: ps1) blast
qed


text \<open>
  What the light-time branch computes, for any arithmetic: on a catalogue with the parent
  links of a load, pairwise different bodies and the observer among them, pass 3
  recomputes every body, in catalogue order, at \<open>dateJDE\<close> minus the delay for the distance
  between \<open>obsPosJDE\<close> and the body's heliocentric position as read at its turn.  That is
  its own pass-1 position composed with the positions of its ancestors as they stand
  then: already recomputed for the ancestors earlier in the catalogue, from pass 1 for the
  others.
\<close>

lemma lightTimePass_in_catalogue_order:
  assumes wf: "linksWellFormed st" and dist: "distinct (systemPlanets st)"
    and obs: "observerPlanet \<in> set (systemPlanets st)"
  shows "\<exists>ps' obsPosJDE obsPosJDEbefore.
     computePositions ar positionAt st True dateJDE observerPlanet ps = Some ps'
     \<and> composedPositionAt ar positionAt st dateJDE observerPlanet = Some obsPosJDE
     \<and> composeChain (\<lambda>a. parent (obj st a)) (vadd ar) (\<lambda>b. positionAt b dateJDE)
           (positionAt observerPlanet
              (tsub ar dateJDE (tmul ar (vlength ar obsPosJDE) (lightDaysPerAU ar))))
           observerPlanet = Some obsPosJDEbefore
     \<and> lightTimeSunPosition ps' = vsub ar obsPosJDE obsPosJDEbefore
     \<and> (\<forall>xs p ys. systemPlanets st = xs @ p # ys \<longrightarrow>
          (\<exists>h. composeChain (\<lambda>a. parent (obj st a)) (vadd ar)
                  (\<lambda>b. if b \<in> set xs then eclipticPos ps' b else positionAt b dateJDE)
                  (positionAt p dateJDE) p = Some h
              \<and> eclipticPos ps' p = positionAt p (tsub ar dateJDE (lightDelay ar h obsPosJDE))))
     \<and> (\<forall>p \<in> set (systemPlanets st). parent (obj st p) = None \<longrightarrow>
          eclipticPos ps' p =
            positionAt p (tsub ar dateJDE (lightDelay ar (positionAt p dateJDE) obsPosJDE)))"
proof -
  let ?S = "set (systemPlanets st)"
  let ?par = "\<lambda>a. parent (obj st a)"
  let ?raw = "\<lambda>b. positionAt b dateJDE"
  from wf have links: "\<forall>a \<in> ?S. case ?par a of None \<Rightarrow> True | Some q \<Rightarrow> q < a \<and> q \<in> ?S"
    by (simp add: linksWellFormed_def)
  define ps1 where "ps1 = fold (\<lambda>p. Planet_computePositionWithoutOrbits positionAt p dateJDE)
                     (systemPlanets st) ps"
  have e1: "\<forall>b \<in> ?S. eclipticPos ps1 b = ?raw b"
    by (simp add: ps1_def fold_withoutOrbits_eclipticPos)
  from e1 have a1: "\<forall>a \<in> ?S. a < observerPlanet \<longrightarrow> eclipticPos ps1 a = ?raw a" by simp
  have "\<exists>h. composeChain ?par (vadd ar) (eclipticPos ps1) (?raw observerPlanet)
                observerPlanet = Some h
           \<and> composeChain ?par (vadd ar) ?raw (?raw observerPlanet) observerPlanet = Some h"
    by (rule composeChain_agree [OF links obs a1])
  then obtain obsPosJDE where
    c0: "composeChain ?par (vadd ar) (eclipticPos ps1) (?raw observerPlanet)
                observerPlanet = Some obsPosJDE"
    and o2: "composedPositionAt ar positionAt st dateJDE observerPlanet = Some obsPosJDE"
    by (auto simp: composedPositionAt_def)
  from c0 e1 obs have o1: "getHeliocentricEclipticPos ar st ps1 observerPlanet = Some obsPosJDE"
    by (simp add: getHeliocentricEclipticPos_def)
  define t' where "t' = tsub ar dateJDE (tmul ar (vlength ar obsPosJDE) (lightDaysPerAU ar))"
  define ps2 where "ps2 = Planet_computePosition positionAt observerPlanet t' ps1"
  have e2: "eclipticPos ps2 = (eclipticPos ps1)(observerPlanet := positionAt observerPlanet t')"
    by (simp add: ps2_def Planet_computePosition_def)
  have a2: "\<forall>a \<in> ?S. a < observerPlanet \<longrightarrow> eclipticPos ps2 a = ?raw a"
    using e1 by (simp add: e2)
  have "\<exists>h. composeChain ?par (vadd ar) (eclipticPos ps2) (positionAt observerPlanet t')
                observerPlanet = Some h
           \<and> composeChain ?par (vadd ar) ?raw (positionAt observerPlanet t')
                observerPlanet = Some h"
    by (rule composeChain_agree [OF links obs a2])
  then obtain obsPosJDEbefore where
    c1: "composeChain ?par (vadd ar) (eclipticPos ps2) (positionAt observerPlanet t')
                observerPlanet = Some obsPosJDEbefore"
    and b2: "composeChain ?par (vadd ar) ?raw (positionAt observerPlanet t') observerPlanet
              = Some obsPosJDEbefore"
    by blast
  have "eclipticPos ps2 observerPlanet = positionAt observerPlanet t'" by (simp add: e2)
  with c1 have b1: "getHeliocentricEclipticPos ar st ps2 observerPlanet = Some obsPosJDEbefore"
    by (simp add: getHeliocentricEclipticPos_def)
  define ps4 where "ps4 = Planet_computePosition positionAt observerPlanet dateJDE
      (ps2\<lparr>lightTimeSunPosition := vsub ar obsPosJDE obsPosJDEbefore\<rparr>)"
  have e4: "\<forall>b \<in> ?S. eclipticPos ps4 b = ?raw b"
    using e1 by (simp add: ps4_def Planet_computePosition_def e2)
  have l4: "lightTimeSunPosition ps4 = vsub ar obsPosJDE obsPosJDEbefore"
    by (simp add: ps4_def Planet_computePosition_def)
  have unfold: "computePositions ar positionAt st True dateJDE observerPlanet ps =
      lightTimePass ar positionAt st dateJDE obsPosJDE (systemPlanets st) ps4"
    using o1 b1
    by (simp add: computePositions_def Let_def ps1_def [symmetric] t'_def [symmetric]
        ps2_def [symmetric] ps4_def [symmetric])
  from lightTimePass_spec [OF links dist subset_refl, of ar positionAt dateJDE obsPosJDE ps4]
  obtain ps' where
    run: "lightTimePass ar positionAt st dateJDE obsPosJDE (systemPlanets st) ps4 = Some ps'"
    and lt: "lightTimeSunPosition ps' = lightTimeSunPosition ps4"
    and each: "\<forall>xs p ys. systemPlanets st = xs @ p # ys \<longrightarrow>
           (\<exists>h. composeChain ?par (vadd ar)
                   (\<lambda>b. if b \<in> set xs then eclipticPos ps' b else eclipticPos ps4 b)
                   (eclipticPos ps4 p) p = Some h
               \<and> eclipticPos ps' p = positionAt p (tsub ar dateJDE (lightDelay ar h obsPosJDE)))"
    by blast
  have each': "\<exists>h. composeChain ?par (vadd ar)
                  (\<lambda>b. if b \<in> set xs then eclipticPos ps' b else ?raw b) (?raw p) p = Some h
              \<and> eclipticPos ps' p = positionAt p (tsub ar dateJDE (lightDelay ar h obsPosJDE))"
    if dec: "systemPlanets st = xs @ p # ys" for xs p ys
  proof -
    from dec have p: "p \<in> ?S" by simp
    from each dec obtain h where
      h: "composeChain ?par (vadd ar)
                   (\<lambda>b. if b \<in> set xs then eclipticPos ps' b else eclipticPos ps4 b)
                   (eclipticPos ps4 p) p = Some h"
      and f: "eclipticPos ps' p = positionAt p (tsub ar dateJDE (lightDelay ar h obsPosJDE))"
      by blast
    have "composeChain ?par (vadd ar)
            (\<lambda>b. if b \<in> set xs then eclipticPos ps' b else eclipticPos ps4 b) (?raw p) p
        = composeChain ?par (vadd ar)
            (\<lambda>b. if b \<in> set xs then eclipticPos ps' b else ?raw b) (?raw p) p"
      by (rule composeChain_cong [OF links p]) (simp add: e4)
    with h f e4 p show ?thesis by simp
  qed
  have roots: "eclipticPos ps' p =
            positionAt p (tsub ar dateJDE (lightDelay ar (?raw p) obsPosJDE))"
    if p: "p \<in> ?S" and n: "parent (obj st p) = None" for p
  proof -
    from p obtain xs ys where "systemPlanets st = xs @ p # ys" by (auto dest: split_list)
    from each' [OF this] n show ?thesis by (simp add: composeChain.simps)
  qed
  from unfold run lt l4 o2 b2 each' roots show ?thesis
    unfolding t'_def by (intro exI [of _ ps'] exI [of _ obsPosJDE] exI [of _ obsPosJDEbefore]) simp
qed


lemma moon_first_links:
  "parent (obj moon_first_system 0) = None" "parent (obj moon_first_system (Suc 0)) = Some 0"
  "parent (obj moon_first_system 2) = Some 0" "parent (obj moon_first_system 3) = Some 2"
  "parent (obj moon_first_system 5) = Some 0" "systemPlanets moon_first_system = [0, 1, 3, 2, 5]"
  by (simp_all add: moon_first_system_def demo_system_def)

lemma demo_lightTime_moon:
  "map_option (\<lambda>ps. eclipticPos ps 3)
     (computePositions real_arith line_positionAt demo_system True 0 1 start_positions)
   = Some (line_positionAt 3
        (0 - lightDelay real_arith
               (1 / 400 + (1 - lightDaysPerAU real_arith / 100), 0, 0) (3 / 2, 0, 0)))"
  by (simp add: computePositions_def Let_def demo_links getHeliocentricEclipticPos_def
      composeChain.simps Planet_computePosition_def Planet_computePositionWithoutOrbits_def
      real_arith_def line_positionAt_def start_positions_def euclid_x lightDelay_def)

lemma moon_first_lightTime_moon:
  "map_option (\<lambda>ps. eclipticPos ps 3)
     (computePositions real_arith line_positionAt moon_first_system True 0 1 start_positions)
   = Some (line_positionAt 3
        (0 - lightDelay real_arith (401 / 400, 0, 0) (3 / 2, 0, 0)))"
  by (simp add: computePositions_def Let_def moon_first_links getHeliocentricEclipticPos_def
      composeChain.simps Planet_computePosition_def Planet_computePositionWithoutOrbits_def
      real_arith_def line_positionAt_def start_positions_def euclid_x lightDelay_def)

text \<open>
  Claim C2 does not hold of the code: pass 3 does not take the delay of a satellite from
  its pass-1 heliocentric position, and what it computes depends on the order of the
  catalogue, which the comment of \<open>computePositions\<close> calls not important and which \<open>draw\<close>
  changes (it sorts the catalogue by distance).  Seen from Mars at time 0, the Moon's
  pass-1 heliocentric position is 401/400 AU along the axis and the observer's is 3/2 AU.
  With the Moon in front of Earth in the catalogue, the Moon is recomputed at the time
  that this distance gives, as the claim says.  With Earth in front of the Moon, Earth has
  been recomputed when the Moon's turn comes, the Moon's heliocentric position is read
  through Earth's new position, and the Moon is recomputed at another time and ends at
  another position.
\<close>

theorem lightTime_pass3_order_dependent:
  "composedPositionAt real_arith line_positionAt demo_system 0 3 = Some (401 / 400, 0, 0)
   \<and> composedPositionAt real_arith line_positionAt demo_system 0 1 = Some (3 / 2, 0, 0)
   \<and> map_option (\<lambda>ps. eclipticPos ps 3)
        (computePositions real_arith line_positionAt moon_first_system True 0 1 start_positions)
      = Some (line_positionAt 3
                (0 - lightDelay real_arith (401 / 400, 0, 0) (3 / 2, 0, 0)))
   \<and> map_option (\<lambda>ps. eclipticPos ps 3)
        (computePositions real_arith line_positionAt demo_system True 0 1 start_positions)
      = Some (line_positionAt 3
                (0 - lightDelay real_arith
                       (1 / 400 + (1 - lightDaysPerAU real_arith / 100), 0, 0) (3 / 2, 0, 0)))
   \<and> line_positionAt 3
        (0 - lightDelay real_arith
               (1 / 400 + (1 - lightDaysPerAU real_arith / 100), 0, 0) (3 / 2, 0, 0))
      \<noteq> line_positionAt 3 (0 - lightDelay real_arith (401 / 400, 0, 0) (3 / 2, 0, 0))"
proof -
  have a: "composedPositionAt real_arith line_positionAt demo_system 0 3
      = Some (401 / 400, 0, 0)"
    by (simp add: composedPositionAt_def composeChain.simps demo_links real_arith_def
        line_positionAt_def)
  have b: "composedPositionAt real_arith line_positionAt demo_system 0 1
      = Some (3 / 2, 0, 0)"
    by (simp add: composedPositionAt_def composeChain.simps demo_links real_arith_def
        line_positionAt_def)
  have c: "line_positionAt 3
        (0 - lightDelay real_arith
               (1 / 400 + (1 - lightDaysPerAU real_arith / 100), 0, 0) (3 / 2, 0, 0))
      \<noteq> line_positionAt 3 (0 - lightDelay real_arith (401 / 400, 0, 0) (3 / 2, 0, 0))"
    by (simp add: line_positionAt_def lightDelay_def real_arith_def euclid_x)
  show ?thesis
    by (rule conjI [OF a conjI [OF b conjI [OF moon_first_lightTime_moon
          conjI [OF demo_lightTime_moon c]]]])
qed

section \<open>The result of getEclipseFactor\<close>

lemma illumination_regimes:
  "R + r \<le> d \<Longrightarrow> illumination funs R r d = 1"
  "\<not> R + r \<le> d \<Longrightarrow> d \<le> r - R \<Longrightarrow> illumination funs R r d = 0"
  "\<not> R + r \<le> d \<Longrightarrow> \<not> d \<le> r - R \<Longrightarrow> d \<le> R - r
     \<Longrightarrow> illumination funs R r d = 1 - r * r / (R * R)"
  by (simp_all add: illumination_def)

lemma fold_least_cases:
  assumes "strictOrder lt"
  shows "fold (\<lambda>p acc. if skip p then acc else let i = c p in if lt i acc then i else acc) ps acc = acc
       \<or> lt (fold (\<lambda>p acc. if skip p then acc else let i = c p in if lt i acc then i else acc) ps acc) acc"
proof (induction ps arbitrary: acc)
  case Nil
  show ?case by simp
next
  case (Cons p ps)
  let ?f = "\<lambda>p acc. if skip p then acc else let i = c p in if lt i acc then i else acc"
  from assms have tr: "\<And>a b c. lt a b \<Longrightarrow> lt b c \<Longrightarrow> lt a c"
    unfolding strictOrder_def by blast
  have unfold: "fold ?f (p # ps) acc = fold ?f ps (?f p acc)" by simp
  show ?case
  proof (cases "\<not> skip p \<and> lt (c p) acc")
    case True
    then have step: "?f p acc = c p" by (simp add: Let_def)
    from Cons.IH [of "c p"] have "fold ?f ps (c p) = c p \<or> lt (fold ?f ps (c p)) (c p)" .
    then have "lt (fold ?f ps (c p)) acc"
    proof
      assume "fold ?f ps (c p) = c p"
      with True show ?thesis by simp
    next
      assume "lt (fold ?f ps (c p)) (c p)"
      with True show ?thesis by (blast intro: tr)
    qed
    then show ?thesis unfolding unfold step by (rule disjI2)
  next
    case False
    then have step: "?f p acc = acc" by (auto simp: Let_def)
    from Cons.IH [of acc] show ?thesis unfolding unfold step .
  qed
qed

lemma fold_least_mem:
  "fold (\<lambda>p acc. if skip p then acc else let i = c p in if lt i acc then i else acc) ps acc = acc
   \<or> fold (\<lambda>p acc. if skip p then acc else let i = c p in if lt i acc then i else acc) ps acc
       \<in> c ` set (filter (\<lambda>p. \<not> skip p) ps)"
proof (induction ps arbitrary: acc)
  case Nil
  show ?case by simp
next
  case (Cons p ps)
  let ?f = "\<lambda>p acc. if skip p then acc else let i = c p in if lt i acc then i else acc"
  let ?S = "c ` set (filter (\<lambda>p. \<not> skip p) ps)"
  let ?S' = "c ` set (filter (\<lambda>p. \<not> skip p) (p # ps))"
  have unfold: "fold ?f (p # ps) acc = fold ?f ps (?f p acc)" by simp
  have sub: "x \<in> ?S \<Longrightarrow> x \<in> ?S'" for x by (cases "skip p") simp_all
  show ?case
  proof (cases "\<not> skip p \<and> lt (c p) acc")
    case True
    then have step: "?f p acc = c p" by (simp add: Let_def)
    from True have here: "c p \<in> ?S'" by simp
    from Cons.IH [of "c p"] have "fold ?f ps (c p) = c p \<or> fold ?f ps (c p) \<in> ?S" .
    then have "fold ?f ps (c p) \<in> ?S'"
    proof
      assume "fold ?f ps (c p) = c p"
      with here show ?thesis by simp
    next
      assume "fold ?f ps (c p) \<in> ?S"
      then show ?thesis by (rule sub)
    qed
    then show ?thesis unfolding unfold step by (rule disjI2)
  next
    case False
    then have step: "?f p acc = acc" by (auto simp: Let_def)
    from Cons.IH [of acc] have "fold ?f ps acc = acc \<or> fold ?f ps acc \<in> ?S" .
    then have "fold ?f ps acc = acc \<or> fold ?f ps acc \<in> ?S'"
    proof
      assume "fold ?f ps acc = acc"
      then show ?thesis by (rule disjI1)
    next
      assume "fold ?f ps acc \<in> ?S"
      then have "fold ?f ps acc \<in> ?S'" by (rule sub)
      then show ?thesis by (rule disjI2)
    qed
    then show ?thesis unfolding unfold step .
  qed
qed

lemma fold_least_upper:
  assumes "strictOrder lt"
  shows "\<not> lt acc
           (fold (\<lambda>p acc. if skip p then acc else let i = c p in if lt i acc then i else acc) ps acc)"
proof
  let ?f = "\<lambda>p acc. if skip p then acc else let i = c p in if lt i acc then i else acc"
  from assms have tr: "\<And>a b c. lt a b \<Longrightarrow> lt b c \<Longrightarrow> lt a c" and irr: "\<And>a. \<not> lt a a"
    unfolding strictOrder_def by blast+
  assume above: "lt acc (fold ?f ps acc)"
  from fold_least_cases [OF assms, of skip c ps acc]
  have "fold ?f ps acc = acc \<or> lt (fold ?f ps acc) acc" .
  then show False
  proof
    assume "fold ?f ps acc = acc"
    with above have "lt acc acc" by simp
    with irr [of acc] show False by simp
  next
    assume "lt (fold ?f ps acc) acc"
    from tr [OF above this] irr [of acc] show False by simp
  qed
qed

lemma fold_least_lower:
  assumes "strictOrder lt" and "q \<in> set ps" and "\<not> skip q"
  shows "\<not> lt (c q)
           (fold (\<lambda>p acc. if skip p then acc else let i = c p in if lt i acc then i else acc) ps acc)"
  using assms(2)
proof (induction ps arbitrary: acc)
  case Nil
  then show ?case by simp
next
  case (Cons p ps)
  let ?f = "\<lambda>p acc. if skip p then acc else let i = c p in if lt i acc then i else acc"
  from assms(1) have tr: "\<And>a b c. lt a b \<Longrightarrow> lt b c \<Longrightarrow> lt a c"
    unfolding strictOrder_def by blast
  have unfold: "fold ?f (p # ps) acc = fold ?f ps (?f p acc)" by simp
  show ?case
  proof (cases "q \<in> set ps")
    case True
    from Cons.IH [OF True, of "?f p acc"] show ?thesis unfolding unfold .
  next
    case False
    with Cons.prems have qp: "q = p" by simp
    show ?thesis
    proof (cases "lt (c p) acc")
      case True
      with qp assms(3) have step: "?f p acc = c p" by (simp add: Let_def)
      from fold_least_upper [OF assms(1), of "c p" skip c ps]
      show ?thesis unfolding unfold step qp .
    next
      case notbelow: False
      with qp assms(3) have step: "?f p acc = acc" by (simp add: Let_def)
      have "\<not> lt (c p) (fold ?f ps acc)"
      proof
        assume below: "lt (c p) (fold ?f ps acc)"
        from fold_least_cases [OF assms(1), of skip c ps acc]
        have "fold ?f ps acc = acc \<or> lt (fold ?f ps acc) acc" .
        then have "lt (c p) acc"
        proof
          assume "fold ?f ps acc = acc"
          with below show ?thesis by simp
        next
          assume "lt (fold ?f ps acc) acc"
          from tr [OF below this] show ?thesis .
        qed
        with notbelow show False by simp
      qed
      then show ?thesis unfolding unfold step qp .
    qed
  qed
qed












text \<open>Over the real numbers the result is the minimum of 1 and the contributions.\<close>

lemma eclipseFactor_real_Min:
  fixes funs :: "(real, 'v) double_funs"
  assumes "sun st = Some s"
  shows "getEclipseFactor funs view st
         = Returns (Min (insert 1 (occluderContribution funs view (view_getRadius view s)
                                     ` set (occluders view st))))"
proof -
  let ?skip = "\<lambda>planet. Some planet = sun st \<or> Some planet = view_currentPlanet view"
  let ?c = "occluderContribution funs view (view_getRadius view s)"
  let ?f = "\<lambda>p acc. if ?skip p then acc else let i = ?c p in if i < acc then i else acc"
  let ?result = "fold ?f (systemPlanets st) 1"
  have so: "strictOrder ((<) :: real \<Rightarrow> real \<Rightarrow> bool)" unfolding strictOrder_def by auto
  have occ: "occluders view st = filter (\<lambda>p. \<not> ?skip p) (systemPlanets st)"
    by (simp add: occluders_def)
  have ret: "getEclipseFactor funs view st = Returns ?result"
    using assms by (simp add: getEclipseFactor_def)
  have mem: "?result = 1 \<or> ?result \<in> ?c ` set (occluders view st)"
    unfolding occ by (rule fold_least_mem)
  have up: "\<not> 1 < ?result" by (rule fold_least_upper [OF so])
  have low: "\<not> ?c p < ?result" if "p \<in> set (occluders view st)" for p
  proof -
    from that have "p \<in> set (systemPlanets st)" and "\<not> ?skip p" by (simp_all add: occ)
    then show ?thesis by (rule fold_least_lower [OF so])
  qed
  have "Min (insert 1 (?c ` set (occluders view st))) = ?result"
  proof (rule Min_eqI)
    show "finite (insert 1 (?c ` set (occluders view st)))" by simp
    show "?result \<in> insert 1 (?c ` set (occluders view st))" using mem by blast
    show "?result \<le> y" if y: "y \<in> insert 1 (?c ` set (occluders view st))" for y
    proof (cases "y = 1")
      case True
      with up show ?thesis by (simp add: not_less)
    next
      case False
      with y obtain p where "p \<in> set (occluders view st)" and "y = ?c p" by auto
      with low [of p] show ?thesis by (simp add: not_less)
    qed
  qed
  with ret show ?thesis by simp
qed

end
